theory Spec2Isabelle
  imports Complex_Main "HOL-Library.Sublist" "HOL-Library.Char_ord" "HOL-Library.List_Lexorder"
begin

section \<open>Python values that the detector handles\<close>

text \<open>
  The repository is two versions of one script (\<open>music_symbol_detector.py\<close>, called v1
  below, and \<open>music_symbol_detector_v2.py\<close>, v2) and a helper \<open>upscale_and_process.py\<close>.
  Everything the scripts get from outside (the file system, the \<open>xml.etree\<close> parser, the
  recognizer process, the imaging library) is modelled by the value it hands to the
  script; the script's own statements are translated one by one.
\<close>

subsection \<open>Strings\<close>

text \<open>
  \<open>str.lower()\<close> on the ASCII letters; every other byte is left as it is (shape names
  and accidental names of the recognizer are ASCII identifiers).
\<close>

definition lower_char :: "char \<Rightarrow> char" where
  "lower_char c =
     (case map_of (zip ''ABCDEFGHIJKLMNOPQRSTUVWXYZ'' ''abcdefghijklmnopqrstuvwxyz'') c of
        Some l \<Rightarrow> l
      | None \<Rightarrow> c)"

definition str_lower :: "string \<Rightarrow> string" where
  "str_lower s = map lower_char s"

text \<open>Python's \<open>sub in s\<close> on two strings: \<open>sub\<close> occurs in \<open>s\<close> as a contiguous run.\<close>

definition str_in :: "string \<Rightarrow> string \<Rightarrow> bool" where
  "str_in sub s = sublist sub s"

text \<open>\<open>s.endswith(e)\<close>.\<close>

definition endswith :: "string \<Rightarrow> string \<Rightarrow> bool" where
  "endswith s e = suffix e s"

text \<open>\<open>sep.join(xs)\<close>.\<close>

fun join :: "string \<Rightarrow> string list \<Rightarrow> string" where
  "join sep [] = []"
| "join sep [x] = x"
| "join sep (x # y # ys) = x @ sep @ join sep (y # ys)"

subsection \<open>Element trees and the values of a dictionary\<close>

text \<open>
  An element of \<open>xml.etree.ElementTree\<close>: its tag, its attributes, its text (\<open>None\<close>
  when there is none) and its children. The values that the scripts store in a symbol
  dictionary: a string, a tuple of integers, a truth value, an element.
\<close>

datatype xml =
  Element (tag: string) (attrib: "(string \<times> string) list") (elem_text: "string option")
    (children: "xml list")

datatype pyval = Str string | IntTuple "int list" | Bool bool | Elem xml

subsection \<open>Exceptions and printed lines\<close>

text \<open>
  A piece of an f-string is a literal text, a formatted integer or a formatted value. An
  exception is its class; the two classes the scripts raise themselves carry their
  message (for \<open>FileNotFoundError\<close> raised by a library, the name of the file). Every
  class below is a subclass of \<open>Exception\<close>, so that \<open>except Exception\<close> and a bare
  \<open>except:\<close> catch each of them.
\<close>

datatype frag = Txt string | Num int | Val pyval

datatype pyerr =
    FileNotFoundError "frag list"
  | RuntimeError "frag list"
  | IsADirectoryError
  | NotADirectoryError
  | FileExistsError
  | PermissionError
  | UnidentifiedImageError
  | OSError
  | ParseError
  | BadZipFile
  | ValueError
  | TypeError
  | AttributeError
  | KeyError
  | IndexError
  | TimeoutExpired

text \<open>
  A line written by \<open>print\<close>: its pieces, and the exception when the line ends in
  \<open>{e}\<close> (the text of a library exception is the library's).
\<close>

datatype out = Print "frag list" | PrintExc "frag list" pyerr

subsection \<open>\<open>int(s)\<close> on a string\<close>

text \<open>
  \<open>int\<close> strips white space, reads an optional sign and then decimal digits, where
  single underscores may stand between digits; anything else is a \<open>ValueError\<close>.
  (Digits and white space outside ASCII, and the interpreter's limit on the number of
  digits, are not modelled.)
\<close>

definition is_space :: "char \<Rightarrow> bool" where
  "is_space c = (c \<in> set [CHR '' '', CHR 0x09, CHR 0x0A, CHR 0x0B, CHR 0x0C, CHR 0x0D,
                           CHR 0x1C, CHR 0x1D, CHR 0x1E, CHR 0x1F])"

definition strip :: "string \<Rightarrow> string" where
  "strip s = rev (dropWhile is_space (rev (dropWhile is_space s)))"

definition digit_val :: "char \<Rightarrow> nat option" where
  "digit_val c = map_of (zip ''0123456789'' [0, 1, 2, 3, 4, 5, 6, 7, 8, 9]) c"

fun more_digits :: "nat \<Rightarrow> string \<Rightarrow> nat option" where
  "more_digits acc [] = Some acc"
| "more_digits acc (c # cs) =
     (if c = CHR ''_'' then
        (case cs of
           [] \<Rightarrow> None
         | d # ds \<Rightarrow>
             (case digit_val d of
                None \<Rightarrow> None
              | Some v \<Rightarrow> more_digits (10 * acc + v) ds))
      else
        (case digit_val c of
           None \<Rightarrow> None
         | Some v \<Rightarrow> more_digits (10 * acc + v) cs))"

definition unsigned :: "string \<Rightarrow> nat option" where
  "unsigned s =
     (case s of
        [] \<Rightarrow> None
      | c # cs \<Rightarrow> (case digit_val c of None \<Rightarrow> None | Some v \<Rightarrow> more_digits v cs))"

definition py_int :: "string \<Rightarrow> pyerr + int" where
  "py_int s =
     (let t = strip s;
          r = (case t of
                 [] \<Rightarrow> None
               | c # cs \<Rightarrow>
                   if c = CHR ''-'' then map_option (\<lambda>n. - int n) (unsigned cs)
                   else if c = CHR ''+'' then map_option int (unsigned cs)
                   else map_option int (unsigned t))
      in case r of None \<Rightarrow> Inl ValueError | Some i \<Rightarrow> Inr i)"

subsection \<open>\<open>float(s)\<close>\<close>

text \<open>
  The scripts only compare the result of \<open>float\<close> with \<open>1\<close>, \<open>-1\<close> and \<open>0\<close>. A float
  is a finite number or one of the three special values; which float a string denotes is
  the interpreter's business and is a parameter of the model (see \<open>env\<close> below).
\<close>

datatype pyfloat = Finite real | NaN | PosInf | NegInf

definition float_eq :: "pyfloat \<Rightarrow> int \<Rightarrow> bool" where
  "float_eq v n = (case v of Finite r \<Rightarrow> r = of_int n | _ \<Rightarrow> False)"

section \<open>The element tree of \<open>xml.etree.ElementTree\<close>\<close>

text \<open>\<open>elem.get(key, default)\<close> with a string default.\<close>

definition attr_get :: "xml \<Rightarrow> string \<Rightarrow> string \<Rightarrow> string" where
  "attr_get e k d = (case map_of (attrib e) k of None \<Rightarrow> d | Some v \<Rightarrow> v)"

text \<open>
  \<open>int(elem.get(key, d))\<close> with an integer default \<open>d\<close>: \<open>int\<close> of the default is the
  default, \<open>int\<close> of an attribute value parses it.
\<close>

definition int_attr :: "xml \<Rightarrow> string \<Rightarrow> int \<Rightarrow> pyerr + int" where
  "int_attr e k d = (case map_of (attrib e) k of None \<Rightarrow> Inr d | Some v \<Rightarrow> py_int v)"

text \<open>The elements below \<open>e\<close> in document order, \<open>e\<close> itself left out.\<close>

fun descendants :: "xml \<Rightarrow> xml list" where
  "descendants (Element t a x cs) = concat (map (\<lambda>c. c # descendants c) cs)"

text \<open>\<open>e.findall('.//t')\<close>, \<open>e.find('t')\<close> and \<open>e.find('.//s/t')\<close>.\<close>

definition findall_desc :: "string \<Rightarrow> xml \<Rightarrow> xml list" where
  "findall_desc t e = filter (\<lambda>d. tag d = t) (descendants e)"

definition find_child :: "string \<Rightarrow> xml \<Rightarrow> xml option" where
  "find_child t e = List.find (\<lambda>c. tag c = t) (children e)"

definition find_desc_child :: "string \<Rightarrow> string \<Rightarrow> xml \<Rightarrow> xml option" where
  "find_desc_child s t e =
     (case concat (map (\<lambda>d. filter (\<lambda>c. tag c = t) (children d)) (findall_desc s e)) of
        [] \<Rightarrow> None
      | x # _ \<Rightarrow> Some x)"

text \<open>
  v1 passes \<open>namespaces = {'': 'http://www.w3.org/2001/MUSICxml'}\<close> to \<open>findall\<close> and
  \<open>find\<close>: an unprefixed tag name of the path is then looked up in that default namespace
  (Python 3.8 and later).
\<close>

definition qname :: "string \<Rightarrow> string" where
  "qname t = ''{http://www.w3.org/2001/MUSICxml}'' @ t"

section \<open>Symbol records\<close>

text \<open>
  A symbol is a dictionary with string keys, kept as the list of its items in the order
  of the dictionary display; \<open>map_of\<close> looks a key up. Its values are of type \<open>pyval\<close>.
\<close>

type_synonym symbol = "(string \<times> pyval) list"

definition TARGET_SYMBOLS :: "(string \<times> string) list" where
  "TARGET_SYMBOLS =
     [(''sharp'', ''#''), (''flat'', ''b''), (''natural'', ''n''), (''notehead'', ''o'')]"

definition COLORS :: "(string \<times> string) list" where
  "COLORS =
     [(''sharp'', ''#FF0000''), (''flat'', ''#00FF00''), (''natural'', ''#0000FF''),
      (''notehead'', ''#FF00FF'')]"

text \<open>The truth value of an object (\<open>None\<close> is the absent value).\<close>

definition truthy :: "pyval option \<Rightarrow> bool" where
  "truthy v =
     (case v of
        None \<Rightarrow> False
      | Some (Str s) \<Rightarrow> s \<noteq> []
      | Some (IntTuple t) \<Rightarrow> t \<noteq> []
      | Some (Bool b) \<Rightarrow> b
      | Some (Elem e) \<Rightarrow> children e \<noteq> [])"

subsection \<open>Classifying a shape\<close>

text \<open>v2, \<open>_classify_symbol\<close>.\<close>

definition classify_symbol :: "string \<Rightarrow> string option" where
  "classify_symbol shape =
     (let shape_lower = str_lower shape in
      if str_in ''sharp'' shape_lower then Some ''sharp''
      else if str_in ''flat'' shape_lower then Some ''flat''
      else if str_in ''natural'' shape_lower then Some ''natural''
      else if str_in ''notehead'' shape_lower \<or> str_in ''head'' shape_lower then Some ''notehead''
      else None)"

text \<open>
  v1, the classification written inline in \<open>_parse_omr_book\<close>: \<open>symbol_type\<close> starts as
  \<open>None\<close> and the \<open>if\<close>/\<open>elif\<close> chain assigns to it.
\<close>

definition inline_symbol_type :: "string \<Rightarrow> string option" where
  "inline_symbol_type shape =
     (let symbol_type = None;
          shape_lower = str_lower shape
      in if str_in ''sharp'' shape_lower then Some ''sharp''
         else if str_in ''flat'' shape_lower then Some ''flat''
         else if str_in ''natural'' shape_lower then Some ''natural''
         else if str_in ''notehead'' shape_lower \<or> str_in ''head'' shape_lower
           then Some ''notehead''
         else symbol_type)"

text \<open>\<open>if symbol_type:\<close> on a string or \<open>None\<close>.\<close>

definition type_truthy :: "string option \<Rightarrow> bool" where
  "type_truthy t = truthy (map_option Str t)"

section \<open>Statements that may raise\<close>

text \<open>
  A statement runs on a state and leaves a state, together with the exception it raised,
  if any. What was assigned before the exception stays assigned, which is what
  \<open>except\<close> handlers and the code after them see.
\<close>

type_synonym 's stmt = "'s \<Rightarrow> 's \<times> pyerr option"

definition pass :: "'s stmt" where
  "pass s = (s, None)"

definition raise :: "pyerr \<Rightarrow> 's stmt" where
  "raise e s = (s, Some e)"

text \<open>\<open>p; q\<close>: the second statement runs when the first one raised nothing.\<close>

definition andthen :: "'s stmt \<Rightarrow> 's stmt \<Rightarrow> 's stmt" where
  "andthen p q s = (case p s of (s', None) \<Rightarrow> q s' | (s', Some e) \<Rightarrow> (s', Some e))"

text \<open>An expression is evaluated (it may raise) and its value is used by what follows.\<close>

definition eval_then :: "pyerr + 'a \<Rightarrow> ('a \<Rightarrow> 's stmt) \<Rightarrow> 's stmt" where
  "eval_then r k s = (case r of Inl e \<Rightarrow> (s, Some e) | Inr v \<Rightarrow> k v s)"

text \<open>\<open>try: p except Exception as e: h\<close>.\<close>

definition try_except :: "'s stmt \<Rightarrow> (pyerr \<Rightarrow> 's stmt) \<Rightarrow> 's stmt" where
  "try_except p h s = (case p s of (s', None) \<Rightarrow> (s', None) | (s', Some e) \<Rightarrow> h e s')"

text \<open>\<open>for x in xs: body\<close>; an exception in the body leaves the loop.\<close>

fun for_each :: "('a \<Rightarrow> 's stmt) \<Rightarrow> 'a list \<Rightarrow> 's stmt" where
  "for_each body [] s = (s, None)"
| "for_each body (x # xs) s =
     (case body x s of
        (s', None) \<Rightarrow> for_each body xs s'
      | (s', Some e) \<Rightarrow> (s', Some e))"

text \<open>Standard output, and the local variable \<open>symbols\<close> of the parsing methods.\<close>

record console =
  stdout :: "out list"

record pstate = console +
  symbols :: "symbol list"

definition print :: "out \<Rightarrow> ('a console_scheme) stmt" where
  "print l s = (s\<lparr>stdout := stdout s @ [l]\<rparr>, None)"

text \<open>\<open>symbols.append(r)\<close>.\<close>

definition append_symbol :: "symbol \<Rightarrow> pstate stmt" where
  "append_symbol r s = (s\<lparr>symbols := symbols s @ [r]\<rparr>, None)"

text \<open>
  A parsing method is called with the standard output so far; it ends in
  \<open>return symbols\<close>, or in the exception that left it.
\<close>

type_synonym parsed = "(pyerr + symbol list) \<times> out list"

definition return_symbols :: "pstate \<times> pyerr option \<Rightarrow> parsed" where
  "return_symbols r =
     (case r of
        (s, None) \<Rightarrow> (Inr (symbols s), stdout s)
      | (s, Some e) \<Rightarrow> (Inl e, stdout s))"

text \<open>\<open>symbols = self.method(...)\<close> inside another parsing method.\<close>

definition assign_symbols :: "(out list \<Rightarrow> parsed) \<Rightarrow> pstate stmt" where
  "assign_symbols m s =
     (case m (stdout s) of
        (Inr r, con) \<Rightarrow> (s\<lparr>stdout := con, symbols := r\<rparr>, None)
      | (Inl e, con) \<Rightarrow> (s\<lparr>stdout := con\<rparr>, Some e))"

text \<open>\<open>symbols.extend(self.method(...))\<close>.\<close>

definition extend_symbols :: "(out list \<Rightarrow> parsed) \<Rightarrow> pstate stmt" where
  "extend_symbols m s =
     (case m (stdout s) of
        (Inr r, con) \<Rightarrow> (s\<lparr>stdout := con, symbols := symbols s @ r\<rparr>, None)
      | (Inl e, con) \<Rightarrow> (s\<lparr>stdout := con\<rparr>, Some e))"

section \<open>Paths, files and the outside world\<close>

subsection \<open>\<open>pathlib\<close> paths\<close>

text \<open>
  A path is its anchor (\<open>''/''\<close> or empty) and its components. Every string the scripts
  join to a path is one component without a slash; joining the empty string changes
  nothing.
\<close>

datatype path = Path (anchor: string) (parts: "string list")

definition parent :: "path \<Rightarrow> path" where
  "parent p = Path (anchor p) (butlast (parts p))"

definition name :: "path \<Rightarrow> string" where
  "name p = (if parts p = [] then [] else last (parts p))"

text \<open>\<open>s.rfind('.')\<close>, as a position counted from the left, \<open>-1\<close> when there is no dot.\<close>

definition rfind_dot :: "string \<Rightarrow> int" where
  "rfind_dot s =
     (let n = length (takeWhile (\<lambda>c. c \<noteq> CHR ''.'') (rev s))
      in if n = length s then - 1 else int (length s) - 1 - int n)"

definition suffix_of :: "path \<Rightarrow> string" where
  "suffix_of p =
     (let nm = name p; i = rfind_dot nm
      in if 0 < i \<and> i < int (length nm) - 1 then drop (nat i) nm else [])"

definition stem :: "path \<Rightarrow> string" where
  "stem p =
     (let nm = name p; i = rfind_dot nm
      in if 0 < i \<and> i < int (length nm) - 1 then take (nat i) nm else nm)"

definition joinpath :: "path \<Rightarrow> string \<Rightarrow> path" where
  "joinpath p s = (if s = [] then p else Path (anchor p) (parts p @ [s]))"

text \<open>\<open>str(p)\<close>.\<close>

definition str_path :: "path \<Rightarrow> string" where
  "str_path p =
     (if anchor p = [] \<and> parts p = [] then ''.'' else anchor p @ join ''/'' (parts p))"

subsection \<open>Images of the imaging library\<close>

text \<open>
  The imaging library is not part of the repository: an image is the record of what the
  library was asked to do, starting from decoded pixel data (named by a number) of a
  given width and height. A rectangle is drawn with its corners, its fill, its outline
  and the width of the outline; a text with its position, its pieces, its fill and
  its font.
\<close>

datatype font = FreeTypeFont string nat | DefaultFont

datatype draw_op =
    Rectangle "int list" "string option" "string option" nat
  | Text "int \<times> int" "frag list" string font

datatype image =
    Decoded nat int int
  | Resized image int int
  | Drawn image draw_op

fun width :: "image \<Rightarrow> int" where
  "width (Decoded d w h) = w"
| "width (Resized i w h) = w"
| "width (Drawn i d) = width i"

fun height :: "image \<Rightarrow> int" where
  "height (Decoded d w h) = h"
| "height (Resized i w h) = h"
| "height (Drawn i d) = height i"

subsection \<open>Files\<close>

text \<open>
  What a path names: a directory, a file holding a well-formed XML document (given by its
  root element), a ZIP archive (given by its members, each under its relative path), an
  image file (the image and the resolution saved with it), or any other file.
\<close>

datatype node =
    Dir
  | XmlDoc xml
  | Archive "(string list \<times> node) list"
  | Picture image "(int \<times> int) option"
  | Blob

type_synonym fs = "path \<Rightarrow> node option"

definition exists :: "fs \<Rightarrow> path \<Rightarrow> bool" where
  "exists f p = (f p \<noteq> None)"

text \<open>\<open>ET.parse(p).getroot()\<close>.\<close>

definition et_parse :: "fs \<Rightarrow> path \<Rightarrow> pyerr + xml" where
  "et_parse f p =
     (case f p of
        None \<Rightarrow> Inl (FileNotFoundError [Txt (str_path p)])
      | Some Dir \<Rightarrow> Inl IsADirectoryError
      | Some (XmlDoc r) \<Rightarrow> Inr r
      | Some _ \<Rightarrow> Inl ParseError)"

text \<open>
  \<open>zipfile.ZipFile(p, 'r')\<close> followed by \<open>extractall(temp_dir)\<close>: the members, as
  they lie below the temporary directory afterwards.
\<close>

definition unzip :: "fs \<Rightarrow> path \<Rightarrow> pyerr + (string list \<times> node) list" where
  "unzip f p =
     (case f p of
        None \<Rightarrow> Inl (FileNotFoundError [Txt (str_path p)])
      | Some Dir \<Rightarrow> Inl IsADirectoryError
      | Some (Archive ms) \<Rightarrow> Inr ms
      | Some _ \<Rightarrow> Inl BadZipFile)"

text \<open>
  The temporary directory after the extraction, as a file system of its own: a member
  lies at its relative path, and every directory on the way to a member exists.
\<close>

definition extracted :: "(string list \<times> node) list \<Rightarrow> fs" where
  "extracted ms p =
     (if parts p = [] then Some Dir
      else
        (case map_of ms (parts p) of
           Some n \<Rightarrow> Some n
         | None \<Rightarrow> if list_ex (\<lambda>m. strict_prefix (parts p) (fst m)) ms then Some Dir else None))"

text \<open>
  \<open>temp_path.glob('sheet#*')\<close>: the entries directly below the temporary directory whose
  name starts with \<open>sheet#\<close>, each once, in the order of the archive.
\<close>

definition glob_sheets :: "path \<Rightarrow> (string list \<times> node) list \<Rightarrow> path list" where
  "glob_sheets temp_path ms =
     map (joinpath temp_path)
       (remdups (filter (prefix ''sheet#'') (map hd (filter (\<lambda>ps. ps \<noteq> []) (map fst ms)))))"

subsection \<open>What the interpreter, the operating system and the libraries decide\<close>

datatype completed = CompletedProcess int string string

text \<open>
  \<open>py_float\<close> is \<open>float\<close> on a string; \<open>py_sorted\<close> is \<open>sorted\<close> on the items of
  a dictionary of counts; \<open>subprocess_run\<close> runs a command on a file system and gives the
  completed process (return code, standard output, standard error) or the exception of
  \<open>subprocess.run\<close>, and the file system the process leaves; \<open>truetype\<close> is
  \<open>ImageFont.truetype\<close>, \<open>load_default\<close> is \<open>ImageFont.load_default()\<close>, \<open>textbbox\<close>
  is \<open>ImageDraw.textbbox\<close>; \<open>can_save\<close> tells whether the imaging library knows a
  format for a file suffix; \<open>expanduser\<close> is \<open>os.path.expanduser\<close>.
\<close>

record env =
  py_float :: "string \<Rightarrow> pyerr + pyfloat"
  py_sorted :: "(pyval \<times> nat) list \<Rightarrow> pyerr + (pyval \<times> nat) list"
  subprocess_run :: "string list \<Rightarrow> fs \<Rightarrow> (pyerr + completed) \<times> fs"
  truetype :: "string \<Rightarrow> nat \<Rightarrow> pyerr + font"
  load_default :: font
  textbbox :: "int \<times> int \<Rightarrow> frag list \<Rightarrow> font \<Rightarrow> int \<times> int \<times> int \<times> int"
  can_save :: "string \<Rightarrow> bool"
  expanduser :: "string \<Rightarrow> string"

section \<open>v1: parsing the recognizer's output\<close>

subsection \<open>\<open>_parse_omr_book\<close>\<close>

text \<open>The body of \<open>for inter in root.findall('.//inter')\<close>.\<close>

definition inter_step :: "xml \<Rightarrow> pstate stmt" where
  "inter_step inter_elem =
     (let shape = attr_get inter_elem ''shape'' [];
          symbol_type = inline_symbol_type shape
      in if type_truthy symbol_type then
           (case find_child ''bounds'' inter_elem of
              None \<Rightarrow> pass
            | Some bounds \<Rightarrow>
                eval_then (int_attr bounds ''x'' 0) (\<lambda>x.
                eval_then (int_attr bounds ''y'' 0) (\<lambda>y.
                eval_then (int_attr bounds ''w'' 20) (\<lambda>w.
                eval_then (int_attr bounds ''h'' 20) (\<lambda>h.
                  append_symbol
                    [(''type'', Str (case symbol_type of Some t \<Rightarrow> t | None \<Rightarrow> [])),
                     (''bbox'', IntTuple [x, y, x + w, y + h]),
                     (''shape'', Str shape)])))))
         else pass)"

definition parse_omr_book_try :: "fs \<Rightarrow> path \<Rightarrow> pstate stmt" where
  "parse_omr_book_try f book_file =
     eval_then (et_parse f book_file) (\<lambda>root.
       andthen (for_each inter_step (findall_desc ''inter'' root))
         (\<lambda>s. print (Print [Txt ''Found '', Num (int (length (symbols s))),
                             Txt '' symbols in OMR book file'']) s))"

definition parse_omr_book :: "fs \<Rightarrow> path \<Rightarrow> out list \<Rightarrow> parsed" where
  "parse_omr_book f book_file con =
     return_symbols
       (try_except (parse_omr_book_try f book_file)
          (\<lambda>e. print (PrintExc [Txt ''Error parsing OMR book file: ''] e))
          \<lparr>stdout = con, symbols = []\<rparr>)"

subsection \<open>\<open>_parse_alternative\<close> and \<open>_estimate_positions\<close>\<close>

definition parse_alternative :: "path \<Rightarrow> out list \<Rightarrow> parsed" where
  "parse_alternative omr_file con =
     (Inr [], con @ [Print [Txt ''Using fallback parsing method'']])"

text \<open>
  The body of \<open>for i, symbol in enumerate(symbols)\<close>, on the local list \<open>estimated\<close>;
  \<open>symbol['type']\<close> raises \<open>KeyError\<close> when the key is missing.
\<close>

definition estimate_step :: "nat \<times> symbol \<Rightarrow> (symbol list) stmt" where
  "estimate_step ix estimated =
     (case map_of (snd ix) ''type'' of
        None \<Rightarrow> (estimated, Some KeyError)
      | Some t \<Rightarrow>
          (estimated @
             [[(''type'', t),
               (''bbox'', IntTuple [100 + int (fst ix) * 50, 100, 120 + int (fst ix) * 50, 120]),
               (''estimated'', Bool True)]],
           None))"

definition estimate_positions :: "symbol list \<Rightarrow> pyerr + symbol list" where
  "estimate_positions syms =
     (case for_each estimate_step (enumerate 0 syms) [] of
        (estimated, None) \<Rightarrow> Inr estimated
      | (estimated, Some e) \<Rightarrow> Inl e)"

subsection \<open>\<open>_parse_omr_output\<close>\<close>

text \<open>The body of \<open>for note in root.findall('.//note', namespaces)\<close>.\<close>

definition note_step :: "env \<Rightarrow> xml \<Rightarrow> pstate stmt" where
  "note_step ev note =
     andthen
       (case find_child (qname ''pitch'') note of
          None \<Rightarrow> pass
        | Some pitch \<Rightarrow>
            andthen
              (case find_child (qname ''alter'') pitch of
                 None \<Rightarrow> pass
               | Some alter \<Rightarrow>
                   eval_then
                     (case elem_text alter of
                        None \<Rightarrow> Inl TypeError
                      | Some t \<Rightarrow> py_float ev t)
                     (\<lambda>alter_value.
                        if float_eq alter_value 1 then
                          append_symbol [(''type'', Str ''sharp''), (''element'', Elem note)]
                        else if float_eq alter_value (- 1) then
                          append_symbol [(''type'', Str ''flat''), (''element'', Elem note)]
                        else if float_eq alter_value 0 then
                          append_symbol [(''type'', Str ''natural''), (''element'', Elem note)]
                        else pass))
              (append_symbol [(''type'', Str ''notehead''), (''element'', Elem note)]))
       (case find_child (qname ''accidental'') note of
          None \<Rightarrow> pass
        | Some accidental \<Rightarrow>
            eval_then
              (case elem_text accidental of
                 None \<Rightarrow> Inl AttributeError
               | Some t \<Rightarrow> Inr (str_lower t))
              (\<lambda>acc_type.
                 if str_in ''sharp'' acc_type then
                   append_symbol [(''type'', Str ''sharp''), (''element'', Elem note)]
                 else if str_in ''flat'' acc_type then
                   append_symbol [(''type'', Str ''flat''), (''element'', Elem note)]
                 else if str_in ''natural'' acc_type then
                   append_symbol [(''type'', Str ''natural''), (''element'', Elem note)]
                 else pass))"

text \<open>The statements of the \<open>try\<close> block.\<close>

definition parse_omr_output_try :: "env \<Rightarrow> fs \<Rightarrow> path \<Rightarrow> pstate stmt" where
  "parse_omr_output_try ev f omr_file =
     eval_then (et_parse f omr_file) (\<lambda>root.
       andthen (for_each (note_step ev) (findall_desc (qname ''note'') root))
      (andthen (print (Print [Txt ''Note: MusicXML doesn't contain pixel coordinates.'']))
      (andthen (print (Print [Txt ''Attempting to parse Audiveris book file...'']))
        (let omr_dir = parent omr_file;
             book_file = joinpath omr_dir (name omr_dir @ ''.omr'')
         in if exists f book_file then assign_symbols (parse_omr_book f book_file)
            else
              andthen (print (Print [Txt ''Warning: Could not find OMR book file with coordinates.'']))
             (andthen (print (Print [Txt ''Generating estimated positions...'']))
                (\<lambda>s. assign_symbols (\<lambda>con. (estimate_positions (symbols s), con)) s))))))"

definition parse_omr_output :: "env \<Rightarrow> fs \<Rightarrow> path \<Rightarrow> out list \<Rightarrow> parsed" where
  "parse_omr_output ev f omr_file con =
     return_symbols
       (try_except (parse_omr_output_try ev f omr_file)
          (\<lambda>e. andthen (print (PrintExc [Txt ''Error parsing OMR output: ''] e))
                (andthen (print (Print [Txt ''Attempting alternative parsing method...'']))
                   (assign_symbols (parse_alternative omr_file))))
          \<lparr>stdout = con, symbols = []\<rparr>)"

section \<open>v2: parsing the recognizer's \<open>.omr\<close> archive\<close>

subsection \<open>\<open>_parse_sheet_xml\<close>\<close>

text \<open>The body of \<open>for head in inters.findall('.//head')\<close>.\<close>

definition head_step :: "xml \<Rightarrow> pstate stmt" where
  "head_step head =
     (case find_child ''bounds'' head of
        None \<Rightarrow> pass
      | Some bounds \<Rightarrow>
          eval_then (int_attr bounds ''x'' 0) (\<lambda>x.
          eval_then (int_attr bounds ''y'' 0) (\<lambda>y.
          eval_then (int_attr bounds ''w'' 20) (\<lambda>w.
          eval_then (int_attr bounds ''h'' 20) (\<lambda>h.
            append_symbol
              [(''type'', Str ''notehead''),
               (''bbox'', IntTuple [x, y, x + w, y + h]),
               (''shape'', Str (attr_get head ''shape'' ''NOTEHEAD''))])))))"

text \<open>The body of \<open>for accidental in inters.findall('.//key-alter')\<close>.\<close>

definition key_alter_step :: "xml \<Rightarrow> pstate stmt" where
  "key_alter_step accidental =
     (let shape = attr_get accidental ''shape'' [] in
      case find_child ''bounds'' accidental of
        None \<Rightarrow> pass
      | Some bounds \<Rightarrow>
          (let symbol_type = classify_symbol shape in
           if type_truthy symbol_type then
             eval_then (int_attr bounds ''x'' 0) (\<lambda>x.
             eval_then (int_attr bounds ''y'' 0) (\<lambda>y.
             eval_then (int_attr bounds ''w'' 20) (\<lambda>w.
             eval_then (int_attr bounds ''h'' 20) (\<lambda>h.
               append_symbol
                 [(''type'', Str (case symbol_type of Some t \<Rightarrow> t | None \<Rightarrow> [])),
                  (''bbox'', IntTuple [x, y, x + w, y + h]),
                  (''shape'', Str shape)]))))
           else pass))"

text \<open>The body of \<open>for inter in inters.findall('.//inter')\<close>.\<close>

definition sheet_inter_step :: "xml \<Rightarrow> pstate stmt" where
  "sheet_inter_step inter_elem =
     (let shape = attr_get inter_elem ''shape'' [] in
      if str_in ''SHARP'' shape \<or> str_in ''FLAT'' shape \<or> str_in ''NATURAL'' shape then
        (case find_child ''bounds'' inter_elem of
           None \<Rightarrow> pass
         | Some bounds \<Rightarrow>
             (let symbol_type = classify_symbol shape in
              if type_truthy symbol_type then
                eval_then (int_attr bounds ''x'' 0) (\<lambda>x.
                eval_then (int_attr bounds ''y'' 0) (\<lambda>y.
                eval_then (int_attr bounds ''w'' 20) (\<lambda>w.
                eval_then (int_attr bounds ''h'' 20) (\<lambda>h.
                  append_symbol
                    [(''type'', Str (case symbol_type of Some t \<Rightarrow> t | None \<Rightarrow> [])),
                     (''bbox'', IntTuple [x, y, x + w, y + h]),
                     (''shape'', Str shape)]))))
              else pass))
      else pass)"

text \<open>
  The statements of the \<open>try\<close> block; the early \<open>return symbols\<close> and the one after the
  block return the same variable.
\<close>

definition parse_sheet_xml_try :: "fs \<Rightarrow> path \<Rightarrow> pstate stmt" where
  "parse_sheet_xml_try f sheet_xml =
     eval_then (et_parse f sheet_xml) (\<lambda>root.
       case find_desc_child ''sig'' ''inters'' root of
         None \<Rightarrow> print (Print [Txt ''No inters section found in sheet XML''])
       | Some inters \<Rightarrow>
           andthen (for_each head_step (findall_desc ''head'' inters))
          (andthen (for_each key_alter_step (findall_desc ''key-alter'' inters))
                   (for_each sheet_inter_step (findall_desc ''inter'' inters))))"

text \<open>The handler also writes the traceback, to standard error.\<close>

definition parse_sheet_xml :: "fs \<Rightarrow> path \<Rightarrow> out list \<Rightarrow> parsed" where
  "parse_sheet_xml f sheet_xml con =
     return_symbols
       (try_except (parse_sheet_xml_try f sheet_xml)
          (\<lambda>e. print (PrintExc [Txt ''Error parsing sheet XML: ''] e))
          \<lparr>stdout = con, symbols = []\<rparr>)"

subsection \<open>\<open>_parse_omr_file\<close>\<close>

text \<open>The temporary directory; paths below it are relative to it.\<close>

definition temp_path :: path where
  "temp_path = Path ''/tmp/omr/'' []"

text \<open>The body of \<open>for sheet_dir in sheet_dirs\<close>, on the extracted files \<open>t\<close>.\<close>

definition sheet_dir_step :: "fs \<Rightarrow> path \<Rightarrow> pstate stmt" where
  "sheet_dir_step t sheet_dir =
     (let sheet_xml = joinpath sheet_dir (name sheet_dir @ ''.xml'')
      in if exists t sheet_xml then extend_symbols (parse_sheet_xml t sheet_xml) else pass)"

definition parse_omr_file_try :: "fs \<Rightarrow> path \<Rightarrow> pstate stmt" where
  "parse_omr_file_try f omr_file =
     eval_then (unzip f omr_file) (\<lambda>ms.
       (let sheet_dirs = glob_sheets temp_path ms
        in for_each (sheet_dir_step (extracted ms)) sheet_dirs))"

definition parse_omr_file :: "fs \<Rightarrow> path \<Rightarrow> out list \<Rightarrow> parsed" where
  "parse_omr_file f omr_file con =
     return_symbols
       (try_except (parse_omr_file_try f omr_file)
          (\<lambda>e. print (PrintExc [Txt ''Error parsing OMR file: ''] e))
          \<lparr>stdout = con, symbols = []\<rparr>)"

section \<open>The world of \<open>process_image\<close>\<close>

text \<open>
  Standard output, the files, and the commands given to \<open>subprocess.run\<close> so far. A
  method that returns a value gives the value or the exception, and the world it leaves.
\<close>

record world = console +
  files :: fs
  launched :: "string list list"

type_synonym 'a meth = "world \<Rightarrow> (pyerr + 'a) \<times> world"

text \<open>\<open>subprocess.run(cmd, ...)\<close>.\<close>

definition run :: "env \<Rightarrow> string list \<Rightarrow> completed meth" where
  "run ev cmd w =
     (case subprocess_run ev cmd (files w) of
        (r, f') \<Rightarrow> (r, w\<lparr>files := f', launched := launched w @ [cmd]\<rparr>))"

text \<open>
  A path given as a string, as \<open>os.path.exists\<close> takes it: split at the slashes, empty
  components and \<open>.\<close> dropped.
\<close>

fun split_on :: "char \<Rightarrow> string \<Rightarrow> string list" where
  "split_on c [] = [[]]"
| "split_on c (x # xs) =
     (if x = c then [] # split_on c xs
      else (case split_on c xs of [] \<Rightarrow> [[x]] | y # ys \<Rightarrow> (x # y) # ys))"

definition path_of :: "string \<Rightarrow> path" where
  "path_of s =
     Path (if prefix ''/'' s then ''/'' else [])
       (filter (\<lambda>c. c \<noteq> [] \<and> c \<noteq> ''.'') (split_on CHR ''/'' s))"

text \<open>The truth value of a string or \<open>None\<close>.\<close>

definition str_truthy :: "string option \<Rightarrow> bool" where
  "str_truthy v = truthy (map_option Str v)"

text \<open>\<open>p.mkdir(exist_ok=True)\<close>.\<close>

definition mkdir_exist_ok :: "path \<Rightarrow> world stmt" where
  "mkdir_exist_ok p w =
     (case files w p of
        Some Dir \<Rightarrow> (w, None)
      | Some _ \<Rightarrow> (w, Some FileExistsError)
      | None \<Rightarrow>
          (case files w (parent p) of
             Some Dir \<Rightarrow> (w\<lparr>files := (files w)(p \<mapsto> Dir)\<rparr>, None)
           | Some _ \<Rightarrow> (w, Some NotADirectoryError)
           | None \<Rightarrow> (w, Some (FileNotFoundError [Txt (str_path p)]))))"

subsection \<open>The imaging library\<close>

text \<open>\<open>Image.open(p)\<close>.\<close>

definition image_open :: "fs \<Rightarrow> path \<Rightarrow> pyerr + image" where
  "image_open f p =
     (case f p of
        None \<Rightarrow> Inl (FileNotFoundError [Txt (str_path p)])
      | Some Dir \<Rightarrow> Inl IsADirectoryError
      | Some (Picture img d) \<Rightarrow> Inr img
      | Some _ \<Rightarrow> Inl UnidentifiedImageError)"

text \<open>
  \<open>img.save(p)\<close> and \<open>img.save(p, dpi=d)\<close>: the format is chosen by the suffix, before
  the file is opened for writing; then the file is written.
\<close>

definition image_save :: "env \<Rightarrow> image \<Rightarrow> path \<Rightarrow> (int \<times> int) option \<Rightarrow> world stmt" where
  "image_save ev img p d w =
     (if \<not> can_save ev (str_lower (suffix_of p)) then (w, Some ValueError)
      else
        (case files w p of
           Some Dir \<Rightarrow> (w, Some IsADirectoryError)
         | _ \<Rightarrow>
             (case files w (parent p) of
                Some Dir \<Rightarrow> (w\<lparr>files := (files w)(p \<mapsto> Picture img d)\<rparr>, None)
              | Some _ \<Rightarrow> (w, Some NotADirectoryError)
              | None \<Rightarrow> (w, Some (FileNotFoundError [Txt (str_path p)])))))"

text \<open>\<open>img.resize((w, h), Image.Resampling.LANCZOS)\<close>.\<close>

definition pil_resize :: "image \<Rightarrow> int \<times> int \<Rightarrow> pyerr + image" where
  "pil_resize img sz =
     (if fst sz \<le> 0 \<or> snd sz \<le> 0 then Inl ValueError else Inr (Resized img (fst sz) (snd sz)))"

text \<open>
  \<open>draw.rectangle(xy, fill=..., outline=..., width=...)\<close> on the image being drawn: the
  library takes the four integers of a rectangle. \<open>draw.text(xy, text, fill=..., font=...)\<close>.
\<close>

definition pil_rectangle :: "pyval \<Rightarrow> string option \<Rightarrow> string option \<Rightarrow> nat \<Rightarrow> image stmt" where
  "pil_rectangle xy fill outline wd img =
     (case xy of
        IntTuple [x0, y0, x1, y1] \<Rightarrow> (Drawn img (Rectangle [x0, y0, x1, y1] fill outline wd), None)
      | IntTuple _ \<Rightarrow> (img, Some ValueError)
      | _ \<Rightarrow> (img, Some TypeError))"

definition pil_text :: "int \<times> int \<Rightarrow> frag list \<Rightarrow> string \<Rightarrow> font \<Rightarrow> image stmt" where
  "pil_text xy txt fill fnt img = (Drawn img (Text xy txt fill fnt), None)"

text \<open>\<open>t[i]\<close> where an integer is needed.\<close>

definition subscript :: "pyval \<Rightarrow> nat \<Rightarrow> pyerr + int" where
  "subscript v i =
     (case v of
        IntTuple t \<Rightarrow> if i < length t then Inr (t ! i) else Inl IndexError
      | _ \<Rightarrow> Inl TypeError)"

definition tuple4 :: "int \<times> int \<times> int \<times> int \<Rightarrow> pyval" where
  "tuple4 b = (case b of (l, t, r, bt) \<Rightarrow> IntTuple [l, t, r, bt])"

section \<open>The detector\<close>

record detector =
  audiveris_path :: "string option"

subsection \<open>v1: \<open>_find_audiveris\<close> and \<open>__init__\<close>\<close>

definition possible_paths :: "env \<Rightarrow> string list" where
  "possible_paths ev =
     [''/Applications/Audiveris.app/Contents/MacOS/Audiveris'',
      ''/usr/local/bin/audiveris'',
      ''audiveris'',
      expanduser ev ''~/Audiveris/build/libs/Audiveris-*.jar'']"

definition find_audiveris :: "env \<Rightarrow> (string option) meth" where
  "find_audiveris ev w =
     (case List.find (\<lambda>p. exists (files w) (path_of p)) (possible_paths ev) of
        Some p \<Rightarrow> (Inr (Some p), w)
      | None \<Rightarrow>
          (case run ev [''which'', ''audiveris''] w of
             (Inr (CompletedProcess returncode out err), w') \<Rightarrow>
               (if returncode = 0 then (Inr (Some (strip out)), w') else (Inr None, w'))
           | (Inl e, w') \<Rightarrow> (Inr None, w')))"

text \<open>\<open>self.audiveris_path = audiveris_path or self._find_audiveris()\<close>.\<close>

definition init :: "env \<Rightarrow> string option \<Rightarrow> detector meth" where
  "init ev path_arg w =
     (if str_truthy path_arg then (Inr \<lparr>audiveris_path = path_arg\<rparr>, w)
      else
        (case find_audiveris ev w of
           (Inr found, w') \<Rightarrow> (Inr \<lparr>audiveris_path = found\<rparr>, w')
         | (Inl e, w') \<Rightarrow> (Inl e, w')))"

subsection \<open>v1: \<open>_run_audiveris\<close>\<close>

definition run_audiveris :: "env \<Rightarrow> detector \<Rightarrow> path \<Rightarrow> path meth" where
  "run_audiveris ev self image_path w =
     (if \<not> str_truthy (audiveris_path self) then
        (Inl (RuntimeError
               [Txt ''Audiveris not found. Please install Audiveris or provide path.'',
                Txt [CHR 0x0A],
                Txt ''Download from: https://github.com/Audiveris/audiveris/releases'']), w)
      else
        (let output_dir = joinpath (parent image_path) ''audiveris_output'' in
         case mkdir_exist_ok output_dir w of
           (w1, Some e) \<Rightarrow> (Inl e, w1)
         | (w1, None) \<Rightarrow>
             (let ap = (case audiveris_path self of Some a \<Rightarrow> a | None \<Rightarrow> []);
                  cmd = (if endswith ap ''.jar''
                         then [''java'', ''-jar'', ap, ''-batch'', ''-export'',
                               ''-output'', str_path output_dir, str_path image_path]
                         else [ap, ''-batch'', ''-export'',
                               ''-output'', str_path output_dir, str_path image_path])
              in case run ev cmd w1 of
                   (Inl TimeoutExpired, w2) \<Rightarrow>
                     (Inl (RuntimeError [Txt ''Audiveris timed out (5 minutes)'']), w2)
                 | (Inl e, w2) \<Rightarrow> (Inl e, w2)
                 | (Inr (CompletedProcess returncode out err), w2) \<Rightarrow>
                     if returncode \<noteq> 0 then
                       (Inl (RuntimeError [Txt ''Audiveris failed with code '', Num returncode]),
                        fst (print (Print [Txt ''Audiveris stderr: '', Txt err]) w2))
                     else
                       (let project_name = stem image_path;
                            mxl = joinpath (joinpath output_dir project_name)
                                    (project_name @ ''.mxl'');
                            omr_file =
                              (if \<not> exists (files w2) mxl
                               then joinpath (joinpath output_dir project_name)
                                      (project_name @ ''.xml'')
                               else mxl)
                        in if \<not> exists (files w2) omr_file then
                             (Inl (RuntimeError [Txt ''OMR output not found in '',
                                                 Txt (str_path output_dir)]), w2)
                           else (Inr omr_file, w2)))))"

subsection \<open>v2: \<open>__init__\<close> and \<open>_run_audiveris\<close>\<close>

definition init_v2 :: "string option \<Rightarrow> detector" where
  "init_v2 path_arg = \<lparr>audiveris_path = path_arg\<rparr>"

text \<open>
  The process gets the environment with \<open>JAVA_HOME\<close> and \<open>PATH\<close> set; a return code
  other than 0 is only printed.
\<close>

definition run_audiveris_v2 :: "env \<Rightarrow> detector \<Rightarrow> path \<Rightarrow> path meth" where
  "run_audiveris_v2 ev self image_path w =
     (if \<not> str_truthy (audiveris_path self) then
        (Inl (RuntimeError [Txt ''Audiveris path not provided'']), w)
      else
        (let output_dir = joinpath (parent image_path) ''audiveris_output'' in
         case mkdir_exist_ok output_dir w of
           (w1, Some e) \<Rightarrow> (Inl e, w1)
         | (w1, None) \<Rightarrow>
             (let ap = (case audiveris_path self of Some a \<Rightarrow> a | None \<Rightarrow> []);
                  cmd = [ap, ''-batch'', ''-export'',
                         ''-output'', str_path output_dir, str_path image_path]
              in case run ev cmd w1 of
                   (Inl TimeoutExpired, w2) \<Rightarrow>
                     (Inl (RuntimeError [Txt ''Audiveris timed out (5 minutes)'']), w2)
                 | (Inl e, w2) \<Rightarrow> (Inl e, w2)
                 | (Inr (CompletedProcess returncode out err), w2) \<Rightarrow>
                     (let w3 = (if returncode \<noteq> 0
                                then fst (print (Print [Txt ''Audiveris stderr: '', Txt err]) w2)
                                else w2);
                          omr_file = joinpath output_dir (stem image_path @ ''.omr'')
                      in if \<not> exists (files w3) omr_file then
                           (Inl (RuntimeError [Txt ''OMR output not found: '',
                                               Txt (str_path omr_file)]), w3)
                         else (Inr omr_file, w3)))))"

section \<open>Drawing the boxes\<close>

text \<open>
  \<open>symbol_type in self.TARGET_SYMBOLS\<close>, \<open>self.COLORS.get(symbol_type, d)\<close>,
  \<open>self.TARGET_SYMBOLS[symbol_type]\<close> and \<open>self.TARGET_SYMBOLS.get(symbol_type,
  symbol_type)\<close>: the keys of both dictionaries are strings, so a value that is not a
  string is not among them.
\<close>

definition in_targets :: "pyval \<Rightarrow> bool" where
  "in_targets v = (case v of Str t \<Rightarrow> map_of TARGET_SYMBOLS t \<noteq> None | _ \<Rightarrow> False)"

definition colors_get :: "pyval \<Rightarrow> string \<Rightarrow> string" where
  "colors_get v d =
     (case v of
        Str t \<Rightarrow> (case map_of COLORS t of Some c \<Rightarrow> c | None \<Rightarrow> d)
      | _ \<Rightarrow> d)"

definition target_label :: "pyval \<Rightarrow> pyerr + string" where
  "target_label v =
     (case v of
        Str t \<Rightarrow> (case map_of TARGET_SYMBOLS t of Some l \<Rightarrow> Inr l | None \<Rightarrow> Inl KeyError)
      | _ \<Rightarrow> Inl KeyError)"

definition targets_get :: "pyval \<Rightarrow> pyval" where
  "targets_get v =
     (case v of
        Str t \<Rightarrow> (case map_of TARGET_SYMBOLS t of Some l \<Rightarrow> Str l | None \<Rightarrow> v)
      | _ \<Rightarrow> v)"

subsection \<open>v1: \<open>_draw_bounding_boxes\<close>\<close>

text \<open>The body of \<open>for symbol in symbols\<close>, on the image being drawn.\<close>

definition draw_symbol :: "env \<Rightarrow> font \<Rightarrow> symbol \<Rightarrow> image stmt" where
  "draw_symbol ev fnt symbol =
     eval_then (case map_of symbol ''type'' of None \<Rightarrow> Inl KeyError | Some t \<Rightarrow> Inr t)
       (\<lambda>symbol_type.
          if \<not> in_targets symbol_type then pass
          else
            (let bbox = map_of symbol ''bbox'' in
             if \<not> truthy bbox then pass
             else
               (case bbox of
                  None \<Rightarrow> pass
                | Some bb \<Rightarrow>
                    (let color = colors_get symbol_type ''#FFFFFF'' in
                     andthen (pil_rectangle bb None (Some color) 3)
                       (eval_then (target_label symbol_type) (\<lambda>label.
                        eval_then (subscript bb 0) (\<lambda>x.
                        eval_then (subscript bb 1) (\<lambda>y.
                          (let text_bbox = textbbox ev (x, y - 25) [Txt label] fnt in
                           andthen (pil_rectangle (tuple4 text_bbox) (Some color) None 1)
                             (pil_text (x, y - 25) [Txt label] ''white'' fnt))))))))))"

definition draw_bounding_boxes :: "env \<Rightarrow> path \<Rightarrow> symbol list \<Rightarrow> path \<Rightarrow> world stmt" where
  "draw_bounding_boxes ev image_path syms output_path w =
     (case image_open (files w) image_path of
        Inl e \<Rightarrow> (w, Some e)
      | Inr img \<Rightarrow>
          (let fnt = (case truetype ev ''/System/Library/Fonts/Helvetica.ttc'' 20 of
                        Inr t \<Rightarrow> t
                      | Inl e \<Rightarrow> load_default ev)
           in case for_each (draw_symbol ev fnt) syms img of
                (img', Some e) \<Rightarrow> (w, Some e)
              | (img', None) \<Rightarrow> image_save ev img' output_path None w))"

subsection \<open>v2: \<open>_draw_bounding_boxes\<close>\<close>

definition draw_symbol_v2 :: "env \<Rightarrow> font \<Rightarrow> symbol \<Rightarrow> image stmt" where
  "draw_symbol_v2 ev fnt symbol =
     eval_then (case map_of symbol ''type'' of None \<Rightarrow> Inl KeyError | Some t \<Rightarrow> Inr t)
       (\<lambda>symbol_type.
          if \<not> in_targets symbol_type then pass
          else
            (let bbox = map_of symbol ''bbox'' in
             if \<not> truthy bbox then pass
             else
               (case bbox of
                  None \<Rightarrow> pass
                | Some bb \<Rightarrow>
                    (let color = colors_get symbol_type ''#FFFFFF'' in
                     andthen (pil_rectangle bb None (Some color) 3)
                       (eval_then (target_label symbol_type) (\<lambda>label.
                        eval_then (subscript bb 1) (\<lambda>y.
                          (let text_y = max (y - 30) 0 in
                           eval_then (subscript bb 0) (\<lambda>x.
                             (let text_bbox = textbbox ev (x, text_y) [Txt label] fnt in
                              andthen (pil_rectangle (tuple4 text_bbox) (Some color) None 1)
                                (pil_text (x, text_y) [Txt label] ''white'' fnt)))))))))))"

text \<open>The banner drawn after the loop.\<close>

definition info_banner :: "env \<Rightarrow> font \<Rightarrow> symbol list \<Rightarrow> image stmt" where
  "info_banner ev small_font syms =
     (let info_text = [Txt ''Detected: '', Num (int (length syms)), Txt '' symbols''];
          info_bbox = textbbox ev (10, 10) info_text small_font
      in andthen (pil_rectangle (tuple4 info_bbox) (Some ''yellow'') None 1)
           (pil_text (10, 10) info_text ''black'' small_font))"

definition draw_bounding_boxes_v2 :: "env \<Rightarrow> path \<Rightarrow> symbol list \<Rightarrow> path \<Rightarrow> world stmt" where
  "draw_bounding_boxes_v2 ev image_path syms output_path w =
     (case image_open (files w) image_path of
        Inl e \<Rightarrow> (w, Some e)
      | Inr img \<Rightarrow>
          (let fonts =
                 (case truetype ev ''/System/Library/Fonts/Helvetica.ttc'' 24 of
                    Inl e \<Rightarrow> (load_default ev, load_default ev)
                  | Inr t \<Rightarrow>
                      (case truetype ev ''/System/Library/Fonts/Helvetica.ttc'' 16 of
                         Inl e \<Rightarrow> (load_default ev, load_default ev)
                       | Inr t' \<Rightarrow> (t, t')))
           in case andthen (for_each (draw_symbol_v2 ev (fst fonts)) syms)
                     (info_banner ev (snd fonts) syms) img of
                (img', Some e) \<Rightarrow> (w, Some e)
              | (img', None) \<Rightarrow> image_save ev img' output_path None w))"

section \<open>\<open>_print_summary\<close>\<close>

text \<open>
  \<open>counts[symbol_type] = counts.get(symbol_type, 0) + 1\<close> on a dictionary kept as the list
  of its items, in the order of insertion.
\<close>

fun count_up :: "pyval \<Rightarrow> (pyval \<times> nat) list \<Rightarrow> (pyval \<times> nat) list" where
  "count_up k [] = [(k, 1)]"
| "count_up k ((k', n) # rest) =
     (if k' = k then (k', n + 1) # rest else (k', n) # count_up k rest)"

definition count_step :: "symbol \<Rightarrow> ((pyval \<times> nat) list) stmt" where
  "count_step symbol counts =
     (case map_of symbol ''type'' of
        None \<Rightarrow> (counts, Some KeyError)
      | Some symbol_type \<Rightarrow> (count_up symbol_type counts, None))"

definition print_summary :: "env \<Rightarrow> symbol list \<Rightarrow> world stmt" where
  "print_summary ev syms w =
     (case for_each count_step syms [] of
        (counts, Some e) \<Rightarrow> (w, Some e)
      | (counts, None) \<Rightarrow>
          andthen (print (Print [Txt (CHR 0x0A # ''Detected symbols:'')]))
            (eval_then (py_sorted ev counts) (\<lambda>items.
               for_each
                 (\<lambda>item. print (Print [Txt ''  '', Val (fst item), Txt '' ('',
                                        Val (targets_get (fst item)), Txt ''): '',
                                        Num (int (snd item))]))
                 items))
            w)"

definition print_summary_v2 :: "env \<Rightarrow> symbol list \<Rightarrow> world stmt" where
  "print_summary_v2 ev syms w =
     (case for_each count_step syms [] of
        (counts, Some e) \<Rightarrow> (w, Some e)
      | (counts, None) \<Rightarrow>
          andthen (print (Print [Txt (CHR 0x0A # ''Detected symbols:'')]))
            (eval_then (py_sorted ev counts) (\<lambda>items.
               for_each
                 (\<lambda>item. print (Print [Txt ''  '', Val (fst item), Txt '' ('',
                                        Val (targets_get (fst item)), Txt ''): '',
                                        Num (int (snd item)), Txt '' ['',
                                        Txt (colors_get (fst item) ''#FFFFFF''), Txt '']'']))
                 items))
            w)"

section \<open>\<open>process_image\<close>\<close>

text \<open>A method call as a statement that stores the value, and a parser called on the world.\<close>

definition call :: "'a meth \<Rightarrow> ('a \<Rightarrow> world stmt) \<Rightarrow> world stmt" where
  "call m k w = (case m w of (Inl e, w') \<Rightarrow> (w', Some e) | (Inr v, w') \<Rightarrow> k v w')"

definition parse_with :: "(fs \<Rightarrow> out list \<Rightarrow> parsed) \<Rightarrow> (symbol list) meth" where
  "parse_with parser w =
     (case parser (files w) (stdout w) of (r, con) \<Rightarrow> (r, w\<lparr>stdout := con\<rparr>))"

definition returning :: "'a \<Rightarrow> world \<times> pyerr option \<Rightarrow> (pyerr + 'a) \<times> world" where
  "returning v r = (case r of (w, None) \<Rightarrow> (Inr v, w) | (w, Some e) \<Rightarrow> (Inl e, w))"

definition default_output_path :: "path \<Rightarrow> path" where
  "default_output_path image_path =
     joinpath (parent image_path) (stem image_path @ ''_detected'' @ suffix_of image_path)"

definition process_image :: "env \<Rightarrow> detector \<Rightarrow> path \<Rightarrow> path option \<Rightarrow> path meth" where
  "process_image ev self image_path output_arg w =
     (if \<not> exists (files w) image_path then
        (Inl (FileNotFoundError [Txt ''Image not found: '', Txt (str_path image_path)]), w)
      else
        (let output_path = (case output_arg of
                              None \<Rightarrow> default_output_path image_path
                            | Some p \<Rightarrow> p)
         in returning output_path
              ((andthen (print (Print [Txt ''Processing: '', Txt (str_path image_path)]))
               (andthen (print (Print [Txt ''Running Audiveris...'']))
               (call (run_audiveris ev self image_path) (\<lambda>omr_file.
                andthen (print (Print [Txt ''Parsing symbols...'']))
               (call (parse_with (\<lambda>f. parse_omr_output ev f omr_file)) (\<lambda>syms.
                andthen (print (Print [Txt ''Drawing bounding boxes...'']))
               (andthen (draw_bounding_boxes ev image_path syms output_path)
               (andthen (print (Print [Txt ''Output saved to: '', Txt (str_path output_path)]))
               (andthen (print (Print [Txt ''Total symbols detected: '',
                                       Num (int (length syms))]))
                        (print_summary ev syms)))))))))) w)))"

definition process_image_v2 :: "env \<Rightarrow> detector \<Rightarrow> path \<Rightarrow> path option \<Rightarrow> path meth" where
  "process_image_v2 ev self image_path output_arg w =
     (if \<not> exists (files w) image_path then
        (Inl (FileNotFoundError [Txt ''Image not found: '', Txt (str_path image_path)]), w)
      else
        (let output_path = (case output_arg of
                              None \<Rightarrow> default_output_path image_path
                            | Some p \<Rightarrow> p)
         in returning output_path
              ((andthen (print (Print [Txt ''Processing: '', Txt (str_path image_path)]))
               (andthen (print (Print [Txt ''Running Audiveris...'']))
               (call (run_audiveris_v2 ev self image_path) (\<lambda>omr_file.
                andthen (print (Print [Txt ''Parsing symbols...'']))
               (call (parse_with (\<lambda>f. parse_omr_file f omr_file)) (\<lambda>syms.
                andthen (print (Print [Txt ''Drawing bounding boxes...'']))
               (andthen (draw_bounding_boxes_v2 ev image_path syms output_path)
               (andthen (print (Print [Txt ''Output saved to: '', Txt (str_path output_path)]))
               (andthen (print (Print [Txt ''Total symbols detected: '',
                                       Num (int (length syms))]))
                        (print_summary_v2 ev syms)))))))))) w)))"

section \<open>\<open>upscale_image\<close>\<close>

definition upscale_image :: "env \<Rightarrow> path \<Rightarrow> path \<Rightarrow> int \<Rightarrow> path meth" where
  "upscale_image ev input_path output_path scale_factor w =
     returning output_path
       (eval_then (image_open (files w) input_path) (\<lambda>img.
          andthen (print (Print [Txt ''Original size: ('', Num (width img), Txt '', '',
                                 Num (height img), Txt '')'']))
            (let new_size = (width img * scale_factor, height img * scale_factor) in
             eval_then (pil_resize img new_size) (\<lambda>img_upscaled.
               andthen (print (Print [Txt ''New size: ('', Num (width img_upscaled), Txt '', '',
                                      Num (height img_upscaled), Txt '')'']))
              (andthen (image_save ev img_upscaled output_path (Some (300, 300)))
                       (print (Print [Txt ''Saved to: '', Txt (str_path output_path)])))))) w)"

section \<open>Predicates used in the properties\<close>

text \<open>
  The four symbol types; a record whose \<open>type\<close> is one of them; a record whose \<open>bbox\<close>
  is a tuple of four integers; a uniform record has both.
\<close>

definition target_types :: "string list" where
  "target_types = [''sharp'', ''flat'', ''natural'', ''notehead'']"

definition has_target_type :: "symbol \<Rightarrow> bool" where
  "has_target_type s =
     (case map_of s ''type'' of Some (Str t) \<Rightarrow> t \<in> set target_types | _ \<Rightarrow> False)"

definition has_int_bbox :: "symbol \<Rightarrow> bool" where
  "has_int_bbox s =
     (case map_of s ''bbox'' of Some (IntTuple b) \<Rightarrow> length b = 4 | _ \<Rightarrow> False)"

definition uniform_record :: "symbol \<Rightarrow> bool" where
  "uniform_record s = (has_target_type s \<and> has_int_bbox s)"

text \<open>The records collected so far are uniform; each has a target type.\<close>

definition all_uniform :: "pstate \<Rightarrow> bool" where
  "all_uniform s = list_all uniform_record (symbols s)"

definition all_typed :: "pstate \<Rightarrow> bool" where
  "all_typed s = list_all has_target_type (symbols s)"

text \<open>A statement keeps a property of the state, whether or not it raises.\<close>

definition keeps :: "('s \<Rightarrow> bool) \<Rightarrow> 's stmt \<Rightarrow> bool" where
  "keeps P p = (\<forall>s. P s \<longrightarrow> P (fst (p s)))"

text \<open>The record that \<open>_estimate_positions\<close> makes at index \<open>i\<close> for a type \<open>t\<close>.\<close>

definition est_record :: "nat \<Rightarrow> pyval \<Rightarrow> symbol" where
  "est_record i t =
     [(''type'', t), (''bbox'', IntTuple [100 + int i * 50, 100, 120 + int i * 50, 120]),
      (''estimated'', Bool True)]"








text \<open>
  The lookup \<open>which audiveris\<close> fails: \<open>subprocess.run\<close> raises, or the return code
  is not 0.
\<close>

definition which_fails :: "env \<Rightarrow> fs \<Rightarrow> bool" where
  "which_fails ev f =
     (case fst (subprocess_run ev [''which'', ''audiveris''] f) of
        Inl e \<Rightarrow> True
      | Inr (CompletedProcess returncode out err) \<Rightarrow> returncode \<noteq> 0)"








text \<open>
  In a world, the path \<open>p\<close> names the file \<open>n\<close>; an image is another one with more
  drawn on it; the recognizer process, whatever its command, leaves the file at \<open>p\<close> as
  it is; the output path of \<open>process_image\<close>, given or defaulted.
\<close>

definition file_is :: "path \<Rightarrow> node \<Rightarrow> world \<Rightarrow> bool" where
  "file_is p n w = (files w p = Some n)"




section \<open>Concrete inputs\<close>

text \<open>
  An interpreter and libraries (\<open>float\<close> reads three numerals, \<open>sorted\<close> orders string
  keys and rejects any other key, no TrueType font is installed, a process does nothing),
  a MusicXML document of two notes, a book file whose second \<open>inter\<close> has a malformed
  attribute, a sheet file with one symbol of each loop, and file systems that hold them.
\<close>

definition example_env :: env where
  "example_env =
     \<lparr>py_float = (\<lambda>s. if s = ''1'' then Inr (Finite 1)
                       else if s = ''-1'' then Inr (Finite (- 1))
                       else if s = ''0'' then Inr (Finite 0)
                       else Inl ValueError),
      py_sorted =
        (\<lambda>xs. if list_all (\<lambda>kv. case fst kv of Str t \<Rightarrow> True | _ \<Rightarrow> False) xs
              then Inr (sort_key (\<lambda>kv. case fst kv of Str t \<Rightarrow> t | _ \<Rightarrow> []) xs)
              else Inl TypeError),
      subprocess_run = (\<lambda>cmd f. (Inr (CompletedProcess 0 [] []), f)),
      truetype = (\<lambda>p n. Inl OSError),
      load_default = DefaultFont,
      textbbox = (\<lambda>xy t fnt. (fst xy, snd xy, fst xy + 12, snd xy + 20)),
      can_save = (\<lambda>sfx. sfx \<in> set [''.png'', ''.jpg'']),
      expanduser = (\<lambda>s. ''/home/user'' @ drop 1 s)\<rparr>"

definition example_musicxml :: xml where
  "example_musicxml =
     Element ''score-partwise'' [] None
       [Element (qname ''note'') [] None
          [Element (qname ''pitch'') [] None [Element (qname ''alter'') [] (Some ''1'') []]],
        Element (qname ''note'') [] None
          [Element (qname ''accidental'') [] (Some ''Flat'') []]]"

definition example_book :: xml where
  "example_book =
     Element ''book'' [] None
       [Element ''inter'' [(''shape'', ''SHARP'')] None
          [Element ''bounds'' [(''x'', ''10''), (''y'', ''20''), (''w'', ''5''), (''h'', ''8'')] None []],
        Element ''inter'' [(''shape'', ''FLAT'')] None
          [Element ''bounds'' [(''x'', ''abc'')] None []],
        Element ''inter'' [(''shape'', ''NOTEHEAD_BLACK'')] None
          [Element ''bounds'' [(''x'', ''7''), (''y'', ''9''), (''w'', ''11''), (''h'', ''13'')] None []]]"

definition example_sheet :: xml where
  "example_sheet =
     Element ''sheet'' [] None
       [Element ''page'' [] None
          [Element ''sig'' [] None
             [Element ''inters'' [] None
                [Element ''head'' [(''shape'', ''NOTEHEAD_BLACK'')] None
                   [Element ''bounds'' [(''x'', ''7'')] None []],
                 Element ''key-alter'' [(''shape'', ''FLAT'')] None
                   [Element ''bounds'' [(''x'', ''1''), (''y'', ''2''), (''w'', ''3''), (''h'', ''4'')] None []],
                 Element ''inter'' [(''shape'', ''NATURAL'')] None
                   [Element ''bounds'' [(''x'', ''-3''), (''y'', ''+4''), (''w'', ''1_0''), (''h'', '' 6 '')] None []]]]]]"

definition score_xml :: path where
  "score_xml = Path [] [''audiveris_output'', ''score'', ''score.xml'']"

definition score_book :: path where
  "score_book = Path [] [''audiveris_output'', ''score'', ''score.omr'']"

definition score_omr :: path where
  "score_omr = Path [] [''audiveris_output'', ''score.omr'']"

definition example_fs :: fs where
  "example_fs =
     (\<lambda>p. if p = score_xml then Some (XmlDoc example_musicxml)
          else if p = score_omr then
            Some (Archive [([''book.xml''], Blob), ([''sheet#1'', ''sheet#1.xml''], XmlDoc example_sheet)])
          else None)"

definition example_fs_book :: fs where
  "example_fs_book = (\<lambda>p. if p = score_book then Some (XmlDoc example_book) else example_fs p)"

text \<open>
  An image file in the working directory, and a recognizer that fails the lookup by
  \<open>which\<close> and otherwise writes the files of the concrete inputs above.
\<close>

definition score_png :: path where
  "score_png = Path [] [''score.png'']"

definition recognizer_env :: env where
  "recognizer_env =
     example_env
       \<lparr>subprocess_run :=
          (\<lambda>cmd f. if cmd = [''which'', ''audiveris''] then (Inr (CompletedProcess 1 [] []), f)
                    else (Inr (CompletedProcess 0 [] []),
                          (\<lambda>p. case example_fs_book p of Some n \<Rightarrow> Some n | None \<Rightarrow> f p)))\<rparr>"

definition example_world :: world where
  "example_world =
     \<lparr>stdout = [],
      files = (\<lambda>p. if p = Path [] [] then Some Dir
                   else if p = score_png then Some (Picture (Decoded 0 800 600) None)
                   else None),
      launched = []\<rparr>"

section \<open>Lemmas on statements and on the parsing methods\<close>

text \<open>The definitions that evaluate a concrete input.\<close>

lemmas stmt_defs = pass_def raise_def andthen_def eval_then_def try_except_def print_def
  append_symbol_def return_symbols_def assign_symbols_def extend_symbols_def

lemmas xml_defs = attr_get_def int_attr_def findall_desc_def find_child_def find_desc_child_def
  qname_def

lemmas str_defs = str_lower_def lower_char_def str_in_def sublist_code endswith_def
  py_int_def strip_def is_space_def digit_val_def unsigned_def

lemmas path_defs = parent_def name_def rfind_dot_def suffix_of_def stem_def joinpath_def
  str_path_def exists_def

lemmas example_defs = example_env_def example_musicxml_def example_book_def example_sheet_def
  score_xml_def score_book_def score_omr_def example_fs_def example_fs_book_def

lemmas parser_defs = parse_omr_output_def parse_omr_output_try_def note_step_def
  estimate_positions_def estimate_step_def enumerate_eq_zip float_eq_def et_parse_def
  parse_alternative_def parse_omr_book_def parse_omr_book_try_def inter_step_def
  inline_symbol_type_def type_truthy_def truthy_def
  parse_omr_file_def parse_omr_file_try_def sheet_dir_step_def
  parse_sheet_xml_def parse_sheet_xml_try_def head_step_def key_alter_step_def
  sheet_inter_step_def classify_symbol_def unzip_def glob_sheets_def extracted_def temp_path_def

lemma for_each_append:
  "for_each body (xs @ ys) s =
     (case for_each body xs s of (s', None) \<Rightarrow> for_each body ys s' | (s', Some e) \<Rightarrow> (s', Some e))"
  by (induction xs arbitrary: s) (auto split: prod.splits option.splits)

lemma for_each_inv:
  assumes "\<And>x s. P s \<Longrightarrow> P (fst (body x s))" and "P s"
  shows "P (fst (for_each body xs s))"
  using assms(2)
proof (induction xs arbitrary: s)
  case Nil
  then show ?case by simp
next
  case (Cons x xs)
  from Cons.prems have "P (fst (body x s))" by (rule assms(1))
  then show ?case using Cons.IH [of "fst (body x s)"]
    by (cases "body x s") (auto split: option.splits)
qed

lemma classify_symbol_target:
  "classify_symbol sh = Some t \<Longrightarrow> t \<in> set target_types"
  by (auto simp: classify_symbol_def target_types_def Let_def split: if_splits)

lemma inline_symbol_type_target:
  "inline_symbol_type sh = Some t \<Longrightarrow> t \<in> set target_types"
  by (auto simp: inline_symbol_type_def target_types_def Let_def split: if_splits)

lemma uniform_new:
  "t \<in> set target_types \<Longrightarrow>
   uniform_record [(''type'', Str t), (''bbox'', IntTuple [x, y, x2, y2]), (''shape'', Str sh)]"
  by (simp add: uniform_record_def has_target_type_def has_int_bbox_def)

lemma inter_step_uniform: "all_uniform s \<Longrightarrow> all_uniform (fst (inter_step e s))"
  by (auto simp: inter_step_def all_uniform_def Let_def pass_def eval_then_def append_symbol_def
      type_truthy_def truthy_def uniform_new inline_symbol_type_target
      split: option.splits sum.splits)

lemma head_step_uniform: "all_uniform s \<Longrightarrow> all_uniform (fst (head_step e s))"
  by (auto simp: head_step_def all_uniform_def Let_def pass_def eval_then_def append_symbol_def
      uniform_new target_types_def
      split: option.splits sum.splits)

lemma key_alter_step_uniform: "all_uniform s \<Longrightarrow> all_uniform (fst (key_alter_step e s))"
  by (auto simp: key_alter_step_def all_uniform_def Let_def pass_def eval_then_def append_symbol_def
      type_truthy_def truthy_def uniform_new classify_symbol_target
      split: option.splits sum.splits)

lemma sheet_inter_step_uniform: "all_uniform s \<Longrightarrow> all_uniform (fst (sheet_inter_step e s))"
  by (auto simp: sheet_inter_step_def all_uniform_def Let_def pass_def eval_then_def append_symbol_def
      type_truthy_def truthy_def uniform_new classify_symbol_target
      split: option.splits sum.splits)

lemma all_uniform_stdout [simp]: "all_uniform (s\<lparr>stdout := c\<rparr>) = all_uniform s"
  by (simp add: all_uniform_def)

lemma print_result: "print l s = (s\<lparr>stdout := stdout s @ [l]\<rparr>, None)"
  by (simp add: print_def)

lemma keepsI: "(\<And>s. P s \<Longrightarrow> P (fst (p s))) \<Longrightarrow> keeps P p"
  by (simp add: keeps_def)

lemma keepsD: "keeps P p \<Longrightarrow> P s \<Longrightarrow> P (fst (p s))"
  by (simp add: keeps_def)

lemma keeps_pass: "keeps P pass"
  by (simp add: keeps_def pass_def)

lemma keeps_andthen: "keeps P p \<Longrightarrow> keeps P q \<Longrightarrow> keeps P (andthen p q)"
  by (auto simp: keeps_def andthen_def split: prod.splits option.splits)

lemma keeps_eval_then: "(\<And>v. keeps P (k v)) \<Longrightarrow> keeps P (eval_then r k)"
  by (auto simp: keeps_def eval_then_def split: sum.splits)

lemma keeps_try_except: "keeps P p \<Longrightarrow> (\<And>e. keeps P (h e)) \<Longrightarrow> keeps P (try_except p h)"
  by (auto simp: keeps_def try_except_def split: prod.splits option.splits)

lemma keeps_for_each: "(\<And>x. keeps P (body x)) \<Longrightarrow> keeps P (for_each body xs)"
  unfolding keeps_def
proof (intro allI impI)
  fix s
  assume h: "\<And>x. \<forall>s. P s \<longrightarrow> P (fst (body x s))" and p: "P s"
  show "P (fst (for_each body xs s))"
    by (rule for_each_inv [where P = P]) (use h p in auto)
qed

lemma keeps_print_uniform: "keeps all_uniform (print l)"
  by (simp add: keeps_def print_result)

lemma parse_omr_book_try_uniform: "keeps all_uniform (parse_omr_book_try f p)"
  unfolding parse_omr_book_try_def
  apply (intro keeps_eval_then keeps_andthen keeps_for_each keepsI inter_step_uniform)
   apply assumption
  apply (simp add: print_def)
  done

lemma estimate_loop:
  "list_all (\<lambda>s. map_of s ''type'' \<noteq> None) syms \<Longrightarrow>
   for_each estimate_step (enumerate n syms) acc =
     (acc @ map (\<lambda>(i, s). est_record i (the (map_of s ''type''))) (enumerate n syms), None)"
proof (induction syms arbitrary: n acc)
  case Nil
  then show ?case by simp
next
  case (Cons a syms)
  then show ?case
    by (auto simp: estimate_step_def est_record_def)
qed

lemma estimate_positions_typed:
  "list_all (\<lambda>s. map_of s ''type'' \<noteq> None) syms \<Longrightarrow>
   estimate_positions syms =
     Inr (map (\<lambda>(i, s). est_record i (the (map_of s ''type''))) (enumerate 0 syms))"
  by (simp add: estimate_positions_def estimate_loop)

lemma all_typed_stdout [simp]: "all_typed (s\<lparr>stdout := c\<rparr>) = all_typed s"
  by (simp add: all_typed_def)

lemma note_step_typed: "all_typed s \<Longrightarrow> all_typed (fst (note_step ev e s))"
  by (auto simp: note_step_def all_typed_def Let_def pass_def eval_then_def append_symbol_def
      andthen_def has_target_type_def target_types_def
      split: option.splits sum.splits prod.splits if_splits)

lemma has_target_type_key: "has_target_type s \<Longrightarrow> map_of s ''type'' \<noteq> None"
  by (auto simp: has_target_type_def split: option.splits)

lemma est_uniform:
  "has_target_type s \<Longrightarrow> uniform_record (est_record i (the (map_of s ''type'')))"
  by (auto simp: has_target_type_def uniform_record_def has_int_bbox_def est_record_def
      split: option.splits pyval.splits)

lemma handler_result:
  "andthen (print a) (andthen (print b) (assign_symbols (parse_alternative p))) s =
     (s\<lparr>stdout := stdout s @ [a, b, Print [Txt ''Using fallback parsing method'']],
        symbols := []\<rparr>, None)"
  by (simp add: andthen_def print_result assign_symbols_def parse_alternative_def)

lemma try_print_returns:
  assumes "keeps all_uniform p"
  shows "\<exists>r con'. return_symbols (try_except p (\<lambda>e. print (l e)) \<lparr>stdout = con, symbols = []\<rparr>)
            = (Inr r, con') \<and> list_all uniform_record r"
proof -
  let ?s0 = "\<lparr>stdout = con, symbols = []\<rparr>"
  have "all_uniform ?s0" by (simp add: all_uniform_def)
  then have u: "all_uniform (fst (p ?s0))"
    by (rule keepsD [OF assms])
  show ?thesis
  proof (cases "p ?s0")
    case (Pair s' x)
    with u have "all_uniform s'" by simp
    then show ?thesis using Pair
      by (cases x) (simp_all add: try_except_def return_symbols_def print_def all_uniform_def)
  qed
qed

lemma parse_sheet_xml_try_uniform: "keeps all_uniform (parse_sheet_xml_try f p)"
  unfolding parse_sheet_xml_try_def
  apply (intro keeps_eval_then)
  apply (simp split: option.split)
  apply (intro conjI impI allI keeps_andthen keeps_for_each keepsI
      head_step_uniform key_alter_step_uniform sheet_inter_step_uniform)
     apply (simp_all add: print_def)
  done

lemma parse_sheet_xml_returns:
  "\<exists>r con'. parse_sheet_xml f p con = (Inr r, con') \<and> list_all uniform_record r"
  unfolding parse_sheet_xml_def
  by (rule try_print_returns [OF parse_sheet_xml_try_uniform])

lemma extend_sheet_uniform: "keeps all_uniform (extend_symbols (parse_sheet_xml t x))"
proof (rule keepsI)
  fix s :: pstate
  assume a: "all_uniform s"
  obtain r con' where r: "parse_sheet_xml t x (stdout s) = (Inr r, con')"
    and u: "list_all uniform_record r"
    using parse_sheet_xml_returns by blast
  show "all_uniform (fst (extend_symbols (parse_sheet_xml t x) s))"
    using a r u by (simp add: extend_symbols_def all_uniform_def)
qed

lemma parse_omr_file_try_uniform: "keeps all_uniform (parse_omr_file_try f p)"
  unfolding parse_omr_file_try_def Let_def
  apply (intro keeps_eval_then keeps_for_each)
  apply (simp add: sheet_dir_step_def Let_def keeps_pass extend_sheet_uniform)
  done

lemma parse_omr_file_returns:
  "\<exists>r con'. parse_omr_file f p con = (Inr r, con') \<and> list_all uniform_record r"
  unfolding parse_omr_file_def
  by (rule try_print_returns [OF parse_omr_file_try_uniform])

lemma parse_omr_book_returns:
  "\<exists>r con'. parse_omr_book f p con = (Inr r, con') \<and> list_all uniform_record r"
  unfolding parse_omr_book_def
  by (rule try_print_returns [OF parse_omr_book_try_uniform])

lemma notes_typed: "keeps all_typed (for_each (note_step ev) xs)"
  by (intro keeps_for_each keepsI note_step_typed)

lemma parse_omr_output_try_normal:
  assumes "parse_omr_output_try ev f p \<lparr>stdout = con, symbols = []\<rparr> = (s', None)"
  shows "list_all uniform_record (symbols s')"
proof -
  let ?s0 = "\<lparr>stdout = con, symbols = []\<rparr>"
  from assms obtain root where root: "et_parse f p = Inr root"
    by (auto simp: parse_omr_output_try_def eval_then_def split: sum.splits)
  obtain s1 x1 where l: "for_each (note_step ev) (findall_desc (qname ''note'') root) ?s0 = (s1, x1)"
    by (cases "for_each (note_step ev) (findall_desc (qname ''note'') root) ?s0")
  have "all_typed ?s0" by (simp add: all_typed_def)
  then have "all_typed (fst (for_each (note_step ev) (findall_desc (qname ''note'') root) ?s0))"
    by (rule keepsD [OF notes_typed])
  with l have t1: "all_typed s1" by simp
  from assms root l have x1: "x1 = None"
    by (auto simp: parse_omr_output_try_def eval_then_def andthen_def split: option.splits)
  let ?book = "joinpath (parent p) (name (parent p) @ ''.omr'')"
  show ?thesis
  proof (cases "exists f ?book")
    case True
    obtain r con' where r: "parse_omr_book f ?book (stdout s1 @ [Print [Txt ''Note: MusicXML doesn't contain pixel coordinates.''], Print [Txt ''Attempting to parse Audiveris book file...'']]) = (Inr r, con')"
      and u: "list_all uniform_record r"
      using parse_omr_book_returns by blast
    from assms root l x1 True r have "symbols s' = r"
      by (auto simp: parse_omr_output_try_def eval_then_def andthen_def print_def Let_def
          assign_symbols_def)
    with u show ?thesis by simp
  next
    case False
    from t1 have k: "list_all (\<lambda>s. map_of s ''type'' \<noteq> None) (symbols s1)"
      using has_target_type_key by (auto simp: all_typed_def list_all_iff)
    from assms root l x1 False have
      "symbols s' = map (\<lambda>(i, s). est_record i (the (map_of s ''type''))) (enumerate 0 (symbols s1))"
      by (auto simp: parse_omr_output_try_def eval_then_def andthen_def print_def Let_def
          assign_symbols_def estimate_positions_typed [OF k])
    moreover have "list_all uniform_record
        (map (\<lambda>(i, s). est_record i (the (map_of s ''type''))) (enumerate 0 (symbols s1)))"
      using t1 by (auto simp: all_typed_def list_all_iff est_uniform in_set_enumerate_eq)
    ultimately show ?thesis by simp
  qed
qed

lemma parse_omr_output_returns:
  "\<exists>r con'. parse_omr_output ev f p con = (Inr r, con') \<and> list_all uniform_record r"
proof (cases "parse_omr_output_try ev f p \<lparr>stdout = con, symbols = []\<rparr>")
  case (Pair s' x)
  show ?thesis
  proof (cases x)
    case None
    with Pair parse_omr_output_try_normal have "list_all uniform_record (symbols s')" by blast
    with Pair None show ?thesis
      by (simp add: parse_omr_output_def try_except_def return_symbols_def)
  next
    case (Some e)
    with Pair show ?thesis
      by (simp add: parse_omr_output_def try_except_def return_symbols_def handler_result)
  qed
qed

lemmas eval_defs = parser_defs stmt_defs xml_defs str_defs path_defs example_defs Let_def

lemma try_print_raise:
  "p s0 = (s, Some e) \<Longrightarrow>
   return_symbols (try_except p (\<lambda>e. print (l e)) s0) = (Inr (symbols s), stdout s @ [l e])"
  by (simp add: try_except_def return_symbols_def print_def)

lemma parse_omr_output_raise:
  "parse_omr_output_try ev f p \<lparr>stdout = con, symbols = []\<rparr> = (s, Some e) \<Longrightarrow>
   parse_omr_output ev f p con =
     (Inr [], stdout s @ [PrintExc [Txt ''Error parsing OMR output: ''] e,
                          Print [Txt ''Attempting alternative parsing method...''],
                          Print [Txt ''Using fallback parsing method'']])"
  by (simp add: parse_omr_output_def try_except_def return_symbols_def handler_result)

lemma inter_step_raise: "inter_step x s = (s', Some e) \<Longrightarrow> s' = s"
  by (auto simp: inter_step_def Let_def pass_def eval_then_def append_symbol_def
      split: option.splits sum.splits if_splits)

lemma book_loop_raise:
  assumes "et_parse f p = Inr rt" "findall_desc ''inter'' rt = pre @ x # post"
    "for_each inter_step pre s0 = (s1, None)" "snd (inter_step x s1) = Some e"
  shows "parse_omr_book_try f p s0 = (s1, Some e)"
proof -
  from assms(4) have "inter_step x s1 = (s1, Some e)"
    using inter_step_raise [of x s1] by (cases "inter_step x s1") auto
  then have "for_each inter_step (pre @ x # post) s0 = (s1, Some e)"
    using assms(3) by (simp add: for_each_append)
  then show ?thesis
    using assms(1,2) by (simp add: parse_omr_book_try_def eval_then_def andthen_def)
qed

lemma parse_omr_output_estimated:
  assumes "et_parse f omr_file = Inr rt"
    and "for_each (note_step ev) (findall_desc (qname ''note'') rt)
           \<lparr>stdout = con, symbols = []\<rparr> = (s, None)"
    and "\<not> exists f (joinpath (parent omr_file) (name (parent omr_file) @ ''.omr''))"
  shows "\<exists>con'. parse_omr_output ev f omr_file con =
     (Inr (map (\<lambda>(i, x). est_record i (the (map_of x ''type''))) (enumerate 0 (symbols s))), con')"
    and "list_all has_target_type (symbols s)"
proof -
  let ?s0 = "\<lparr>stdout = con, symbols = []\<rparr>"
  have "all_typed ?s0" by (simp add: all_typed_def)
  then have "all_typed (fst (for_each (note_step ev) (findall_desc (qname ''note'') rt) ?s0))"
    by (rule keepsD [OF notes_typed])
  with assms(2) have t1: "all_typed s" by simp
  then show "list_all has_target_type (symbols s)" by (simp add: all_typed_def)
  from t1 have k: "list_all (\<lambda>s. map_of s ''type'' \<noteq> None) (symbols s)"
    using has_target_type_key by (auto simp: all_typed_def list_all_iff)
  show "\<exists>con'. parse_omr_output ev f omr_file con =
     (Inr (map (\<lambda>(i, x). est_record i (the (map_of x ''type''))) (enumerate 0 (symbols s))), con')"
    using assms
    by (simp add: parse_omr_output_def parse_omr_output_try_def eval_then_def andthen_def
        print_def Let_def assign_symbols_def estimate_positions_typed [OF k] try_except_def
        return_symbols_def)
qed


















lemmas world_defs = run_def split_on.simps path_of_def str_truthy_def mkdir_exist_ok_def image_open_def
  image_save_def pil_resize_def pil_rectangle_def pil_text_def subscript_def tuple4_def
  possible_paths_def find_audiveris_def init_def run_audiveris_def init_v2_def
  run_audiveris_v2_def in_targets_def colors_get_def target_label_def targets_get_def
  draw_symbol_def draw_bounding_boxes_def draw_symbol_v2_def info_banner_def
  draw_bounding_boxes_v2_def count_step_def print_summary_def print_summary_v2_def
  call_def parse_with_def returning_def default_output_path_def process_image_def
  process_image_v2_def upscale_image_def TARGET_SYMBOLS_def COLORS_def
  which_fails_def score_png_def recognizer_env_def example_world_def

lemmas eval_all = eval_defs world_defs

lemma upscale_image_frame:
  "output_path \<noteq> input_path \<Longrightarrow>
   files (snd (upscale_image ev input_path output_path scale_factor w)) input_path =
     files w input_path"
  by (auto simp: upscale_image_def returning_def eval_then_def andthen_def print_def
      image_save_def pil_resize_def Let_def
      split: sum.splits prod.splits option.splits node.splits if_splits)

























lemma file_is_stdout [simp]: "file_is p n (w\<lparr>stdout := c\<rparr>) = file_is p n w"
  by (simp add: file_is_def)

























section \<open>Properties\<close>

text \<open>
  C8. For every shape string, the classification written inline in v1's
  \<open>_parse_omr_book\<close> gives the same symbol type, or the same absence of one, as v2's
  \<open>_classify_symbol\<close>, and the two callers' tests \<open>if symbol_type:\<close> agree on it.
\<close>

theorem inline_classification_eq_classify_symbol:
  "inline_symbol_type shape = classify_symbol shape \<and>
   type_truthy (inline_symbol_type shape) = type_truthy (classify_symbol shape)"
  by (simp add: inline_symbol_type_def classify_symbol_def Let_def)

text \<open>
  C1. Every list returned by the parsing entry points, v1 \<open>_parse_omr_output\<close> and v2
  \<open>_parse_omr_file\<close>, holds uniform symbol records only: the \<open>type\<close> of each is one of
  \<open>sharp\<close>, \<open>flat\<close>, \<open>natural\<close>, \<open>notehead\<close> and its \<open>bbox\<close> is a tuple of four
  integers. Both entry points return a list for every file system, file and interpreter,
  so the statement covers every path, the one that replaces the records read from
  MusicXML by estimated ones included.
\<close>

theorem parsed_records_uniform:
  "(\<exists>r con'. parse_omr_output ev f omr_file con = (Inr r, con') \<and> list_all uniform_record r) \<and>
   (\<exists>r con'. parse_omr_file f omr_file con = (Inr r, con') \<and> list_all uniform_record r)"
  using parse_omr_output_returns parse_omr_file_returns by blast

theorem parsed_records_uniform_witness:
  "list_all uniform_record
     [[(''type'', Str ''sharp''), (''bbox'', IntTuple [100, 100, 120, 120]), (''estimated'', Bool True)],
      [(''type'', Str ''notehead''), (''bbox'', IntTuple [150, 100, 170, 120]), (''estimated'', Bool True)],
      [(''type'', Str ''flat''), (''bbox'', IntTuple [200, 100, 220, 120]), (''estimated'', Bool True)]] \<and>
   fst (parse_omr_output example_env example_fs score_xml []) =
     Inr [[(''type'', Str ''sharp''), (''bbox'', IntTuple [100, 100, 120, 120]), (''estimated'', Bool True)],
      [(''type'', Str ''notehead''), (''bbox'', IntTuple [150, 100, 170, 120]), (''estimated'', Bool True)],
      [(''type'', Str ''flat''), (''bbox'', IntTuple [200, 100, 220, 120]), (''estimated'', Bool True)]] \<and>
   list_all uniform_record
     [[(''type'', Str ''notehead''), (''bbox'', IntTuple [7, 0, 27, 20]), (''shape'', Str ''NOTEHEAD_BLACK'')],
      [(''type'', Str ''flat''), (''bbox'', IntTuple [1, 2, 4, 6]), (''shape'', Str ''FLAT'')],
      [(''type'', Str ''natural''), (''bbox'', IntTuple [- 3, 4, 7, 10]), (''shape'', Str ''NATURAL'')]] \<and>
   fst (parse_omr_file example_fs score_omr []) =
     Inr [[(''type'', Str ''notehead''), (''bbox'', IntTuple [7, 0, 27, 20]), (''shape'', Str ''NOTEHEAD_BLACK'')],
      [(''type'', Str ''flat''), (''bbox'', IntTuple [1, 2, 4, 6]), (''shape'', Str ''FLAT'')],
      [(''type'', Str ''natural''), (''bbox'', IntTuple [- 3, 4, 7, 10]), (''shape'', Str ''NATURAL'')]]"
  using parsed_records_uniform [of example_env example_fs score_xml "[]"]
    parsed_records_uniform [of example_env example_fs score_omr "[]"]
  by (simp add: eval_defs)

text \<open>
  C3. No parsing method lets an exception reach its caller. For every file system and
  path, v1 \<open>_parse_omr_output\<close>, v1 \<open>_parse_omr_book\<close> and v2 \<open>_parse_omr_file\<close>
  return a list. When the \<open>try\<close> block of \<open>_parse_omr_output\<close> raises, the method prints
  the diagnostic and returns the empty list of \<open>_parse_alternative\<close>; when the block of
  \<open>_parse_omr_book\<close> or of \<open>_parse_omr_file\<close> raises, the method prints its diagnostic
  and returns the records collected up to there. A file that \<open>ET.parse\<close> or \<open>ZipFile\<close>
  rejects (missing, not XML, a bad archive) raises in the block before any record is
  collected; an \<open>inter\<close> element that raises in \<open>_parse_omr_book\<close> leaves the records
  of the elements before it.
\<close>

theorem parsing_catches_exceptions:
  "(\<exists>r con'. parse_omr_output ev f p con = (Inr r, con')) \<and>
   (\<exists>r con'. parse_omr_book f p con = (Inr r, con')) \<and>
   (\<exists>r con'. parse_omr_file f p con = (Inr r, con')) \<and>
   (\<forall>s e. parse_omr_output_try ev f p \<lparr>stdout = con, symbols = []\<rparr> = (s, Some e) \<longrightarrow>
      parse_omr_output ev f p con =
        (Inr [], stdout s @ [PrintExc [Txt ''Error parsing OMR output: ''] e,
                             Print [Txt ''Attempting alternative parsing method...''],
                             Print [Txt ''Using fallback parsing method'']])) \<and>
   (\<forall>s e. parse_omr_book_try f p \<lparr>stdout = con, symbols = []\<rparr> = (s, Some e) \<longrightarrow>
      parse_omr_book f p con =
        (Inr (symbols s), stdout s @ [PrintExc [Txt ''Error parsing OMR book file: ''] e])) \<and>
   (\<forall>s e. parse_omr_file_try f p \<lparr>stdout = con, symbols = []\<rparr> = (s, Some e) \<longrightarrow>
      parse_omr_file f p con =
        (Inr (symbols s), stdout s @ [PrintExc [Txt ''Error parsing OMR file: ''] e])) \<and>
   (\<forall>e s0. et_parse f p = Inl e \<longrightarrow>
      parse_omr_output_try ev f p s0 = (s0, Some e) \<and> parse_omr_book_try f p s0 = (s0, Some e)) \<and>
   (\<forall>e s0. unzip f p = Inl e \<longrightarrow> parse_omr_file_try f p s0 = (s0, Some e)) \<and>
   (\<forall>rt pre x post s0 s1 e.
      et_parse f p = Inr rt \<and> findall_desc ''inter'' rt = pre @ x # post \<and>
      for_each inter_step pre s0 = (s1, None) \<and> snd (inter_step x s1) = Some e \<longrightarrow>
      parse_omr_book_try f p s0 = (s1, Some e))"
proof (intro conjI allI impI)
  show "\<exists>r con'. parse_omr_output ev f p con = (Inr r, con')"
    using parse_omr_output_returns by blast
  show "\<exists>r con'. parse_omr_book f p con = (Inr r, con')"
    using parse_omr_book_returns by blast
  show "\<exists>r con'. parse_omr_file f p con = (Inr r, con')"
    using parse_omr_file_returns by blast
next
  fix s e
  assume "parse_omr_output_try ev f p \<lparr>stdout = con, symbols = []\<rparr> = (s, Some e)"
  then show "parse_omr_output ev f p con =
        (Inr [], stdout s @ [PrintExc [Txt ''Error parsing OMR output: ''] e,
                             Print [Txt ''Attempting alternative parsing method...''],
                             Print [Txt ''Using fallback parsing method'']])"
    by (rule parse_omr_output_raise)
next
  fix s e
  assume "parse_omr_book_try f p \<lparr>stdout = con, symbols = []\<rparr> = (s, Some e)"
  then show "parse_omr_book f p con =
        (Inr (symbols s), stdout s @ [PrintExc [Txt ''Error parsing OMR book file: ''] e])"
    unfolding parse_omr_book_def by (rule try_print_raise)
next
  fix s e
  assume "parse_omr_file_try f p \<lparr>stdout = con, symbols = []\<rparr> = (s, Some e)"
  then show "parse_omr_file f p con =
        (Inr (symbols s), stdout s @ [PrintExc [Txt ''Error parsing OMR file: ''] e])"
    unfolding parse_omr_file_def by (rule try_print_raise)
next
  fix e s0
  assume "et_parse f p = Inl e"
  then show "parse_omr_output_try ev f p s0 = (s0, Some e)"
    and "parse_omr_book_try f p s0 = (s0, Some e)"
    by (simp_all add: parse_omr_output_try_def parse_omr_book_try_def eval_then_def)
next
  fix e s0
  assume "unzip f p = Inl e"
  then show "parse_omr_file_try f p s0 = (s0, Some e)"
    by (simp add: parse_omr_file_try_def eval_then_def)
next
  fix rt pre x post s0 s1 e
  assume "et_parse f p = Inr rt \<and> findall_desc ''inter'' rt = pre @ x # post \<and>
      for_each inter_step pre s0 = (s1, None) \<and> snd (inter_step x s1) = Some e"
  then show "parse_omr_book_try f p s0 = (s1, Some e)"
    using book_loop_raise by blast
qed

theorem parsing_catches_exceptions_witness:
  "et_parse example_fs score_book = Inl (FileNotFoundError [Txt ''audiveris_output/score/score.omr'']) \<and>
   parse_omr_output example_env example_fs score_book [] =
     (Inr [], [PrintExc [Txt ''Error parsing OMR output: '']
                 (FileNotFoundError [Txt ''audiveris_output/score/score.omr'']),
               Print [Txt ''Attempting alternative parsing method...''],
               Print [Txt ''Using fallback parsing method'']]) \<and>
   parse_omr_book_try example_fs_book score_book \<lparr>stdout = [], symbols = []\<rparr> =
     (\<lparr>stdout = [],
       symbols = [[(''type'', Str ''sharp''), (''bbox'', IntTuple [10, 20, 15, 28]),
                   (''shape'', Str ''SHARP'')]]\<rparr>, Some ValueError) \<and>
   parse_omr_book example_fs_book score_book [] =
     (Inr [[(''type'', Str ''sharp''), (''bbox'', IntTuple [10, 20, 15, 28]),
            (''shape'', Str ''SHARP'')]],
      [PrintExc [Txt ''Error parsing OMR book file: ''] ValueError]) \<and>
   unzip example_fs score_xml = Inl BadZipFile \<and>
   parse_omr_file example_fs score_xml [] =
     (Inr [], [PrintExc [Txt ''Error parsing OMR file: ''] BadZipFile])"
proof -
  have a: "et_parse example_fs score_book = Inl (FileNotFoundError [Txt ''audiveris_output/score/score.omr''])"
    by (simp add: eval_defs)
  have b: "parse_omr_book_try example_fs_book score_book \<lparr>stdout = [], symbols = []\<rparr> =
     (\<lparr>stdout = [],
       symbols = [[(''type'', Str ''sharp''), (''bbox'', IntTuple [10, 20, 15, 28]),
                   (''shape'', Str ''SHARP'')]]\<rparr>, Some ValueError)"
    by (simp add: eval_defs)
  have c: "unzip example_fs score_xml = Inl BadZipFile"
    by (simp add: eval_defs)
  show ?thesis
    using a b c
      parsing_catches_exceptions [of example_env example_fs score_book "[]"]
      parsing_catches_exceptions [of example_env example_fs_book score_book "[]"]
      parsing_catches_exceptions [of example_env example_fs score_xml "[]"]
    by simp
qed

text \<open>
  C4. When the MusicXML file parses (the document is read and the loop over its notes
  ends without an exception, leaving \<open>n\<close> symbols) and the \<open>.omr\<close> book file does not
  exist, v1 \<open>_parse_omr_output\<close> returns \<open>n\<close> records: the record at index \<open>i\<close> has
  the type of the symbol at index \<open>i\<close>, the bbox \<open>(100 + 50 i, 100, 120 + 50 i, 120)\<close>
  and \<open>'estimated': True\<close>, and nothing else.
\<close>

theorem estimated_positions_when_book_missing:
  assumes "et_parse f omr_file = Inr rt"
    and "for_each (note_step ev) (findall_desc (qname ''note'') rt)
           \<lparr>stdout = con, symbols = []\<rparr> = (s, None)"
    and "\<not> exists f (joinpath (parent omr_file) (name (parent omr_file) @ ''.omr''))"
  shows "\<exists>r con'. parse_omr_output ev f omr_file con = (Inr r, con') \<and>
           length r = length (symbols s) \<and>
           (\<forall>i<length (symbols s).
              \<exists>t. map_of (symbols s ! i) ''type'' = Some t \<and>
                  r ! i = [(''type'', t),
                           (''bbox'', IntTuple [100 + 50 * int i, 100, 120 + 50 * int i, 120]),
                           (''estimated'', Bool True)])"
proof -
  let ?r = "map (\<lambda>(i, x). est_record i (the (map_of x ''type''))) (enumerate 0 (symbols s))"
  from parse_omr_output_estimated [OF assms] obtain con'
    where r: "parse_omr_output ev f omr_file con = (Inr ?r, con')"
      and t: "list_all has_target_type (symbols s)"
    by blast
  have "\<exists>t. map_of (symbols s ! i) ''type'' = Some t \<and>
           ?r ! i = [(''type'', t),
                     (''bbox'', IntTuple [100 + 50 * int i, 100, 120 + 50 * int i, 120]),
                     (''estimated'', Bool True)]" if "i < length (symbols s)" for i
  proof -
    from t that have "has_target_type (symbols s ! i)"
      by (simp add: list_all_length)
    then obtain v where v: "map_of (symbols s ! i) ''type'' = Some v"
      using has_target_type_key by fastforce
    with that show ?thesis
      by (simp add: nth_enumerate_eq est_record_def)
  qed
  with r show ?thesis by simp
qed

theorem estimated_positions_when_book_missing_witness:
  "et_parse example_fs score_xml = Inr example_musicxml \<and>
   \<not> exists example_fs (joinpath (parent score_xml) (name (parent score_xml) @ ''.omr'')) \<and>
   (\<exists>r. fst (parse_omr_output example_env example_fs score_xml []) = Inr r \<and> length r = 3 \<and>
      r ! 0 = [(''type'', Str ''sharp''), (''bbox'', IntTuple [100, 100, 120, 120]), (''estimated'', Bool True)] \<and>
      r ! 1 = [(''type'', Str ''notehead''), (''bbox'', IntTuple [150, 100, 170, 120]), (''estimated'', Bool True)] \<and>
      r ! 2 = [(''type'', Str ''flat''), (''bbox'', IntTuple [200, 100, 220, 120]), (''estimated'', Bool True)])"
proof -
  have a: "et_parse example_fs score_xml = Inr example_musicxml"
    by (simp add: eval_defs)
  have b: "for_each (note_step example_env) (findall_desc (qname ''note'') example_musicxml)
           \<lparr>stdout = [], symbols = []\<rparr> =
        (\<lparr>stdout = [],
          symbols = [[(''type'', Str ''sharp''), (''element'', Elem (Element (qname ''note'') [] None
          [Element (qname ''pitch'') [] None [Element (qname ''alter'') [] (Some ''1'') []]]))],
            [(''type'', Str ''notehead''), (''element'', Elem (Element (qname ''note'') [] None
          [Element (qname ''pitch'') [] None [Element (qname ''alter'') [] (Some ''1'') []]]))],
            [(''type'', Str ''flat''), (''element'', Elem (Element (qname ''note'') [] None
          [Element (qname ''accidental'') [] (Some ''Flat'') []]))]]\<rparr>, None)"
    by (simp add: eval_defs)
  have c: "\<not> exists example_fs (joinpath (parent score_xml) (name (parent score_xml) @ ''.omr''))"
    by (simp add: eval_defs)
  from estimated_positions_when_book_missing [OF a b c]
  obtain r con' where r: "parse_omr_output example_env example_fs score_xml [] = (Inr r, con')"
    and l: "length r = 3"
    and n: "\<forall>i<3. \<exists>t. map_of ([[(''type'', Str ''sharp''), (''element'', Elem (Element (qname ''note'') [] None
          [Element (qname ''pitch'') [] None [Element (qname ''alter'') [] (Some ''1'') []]]))],
            [(''type'', Str ''notehead''), (''element'', Elem (Element (qname ''note'') [] None
          [Element (qname ''pitch'') [] None [Element (qname ''alter'') [] (Some ''1'') []]]))],
            [(''type'', Str ''flat''), (''element'', Elem (Element (qname ''note'') [] None
          [Element (qname ''accidental'') [] (Some ''Flat'') []]))]] ! i) ''type'' = Some t \<and>
                  r ! i = [(''type'', t),
                           (''bbox'', IntTuple [100 + 50 * int i, 100, 120 + 50 * int i, 120]),
                           (''estimated'', Bool True)]"
    by auto
  have "r ! 0 = [(''type'', Str ''sharp''), (''bbox'', IntTuple [100, 100, 120, 120]), (''estimated'', Bool True)]"
    using n [rule_format, of 0] by simp
  moreover have "r ! 1 = [(''type'', Str ''notehead''), (''bbox'', IntTuple [150, 100, 170, 120]), (''estimated'', Bool True)]"
    using n [rule_format, of 1] by simp
  moreover have "r ! 2 = [(''type'', Str ''flat''), (''bbox'', IntTuple [200, 100, 220, 120]), (''estimated'', Bool True)]"
    using n [rule_format, of 2] by simp
  ultimately show ?thesis
    using r l a c by auto
qed




text \<open>
  C7. When no Audiveris path is supplied and none can be located (v1: none of the
  candidate paths exists and the lookup by \<open>which\<close> fails, so that the constructor leaves
  \<open>audiveris_path\<close> at \<open>None\<close>; v2: the constructor got \<open>None\<close>), \<open>_run_audiveris\<close>
  raises \<open>RuntimeError\<close> and leaves the world as it was: no directory is made, no
  process is launched, nothing is printed.
\<close>

theorem no_audiveris_raises_before_any_effect:
  "((\<forall>p\<in>set (possible_paths ev). \<not> exists (files w0) (path_of p)) \<and> which_fails ev (files w0) \<longrightarrow>
      (\<exists>d w1. init ev None w0 = (Inr d, w1) \<and> audiveris_path d = None \<and>
         (\<forall>image_path w.
            run_audiveris ev d image_path w =
              (Inl (RuntimeError
                     [Txt ''Audiveris not found. Please install Audiveris or provide path.'',
                      Txt [CHR 0x0A],
                      Txt ''Download from: https://github.com/Audiveris/audiveris/releases'']), w)))) \<and>
   (\<forall>image_path w.
      run_audiveris_v2 ev (init_v2 None) image_path w =
        (Inl (RuntimeError [Txt ''Audiveris path not provided'']), w))"
proof (intro conjI impI allI)
  assume a: "(\<forall>p\<in>set (possible_paths ev). \<not> exists (files w0) (path_of p)) \<and> which_fails ev (files w0)"
  then have f: "List.find (\<lambda>p. exists (files w0) (path_of p)) (possible_paths ev) = None"
    by (simp add: find_None_iff)
  obtain r f' where r: "subprocess_run ev [''which'', ''audiveris''] (files w0) = (r, f')"
    by (cases "subprocess_run ev [''which'', ''audiveris''] (files w0)")
  with a have "fst (find_audiveris ev w0) = Inr None"
    by (auto simp: find_audiveris_def f run_def which_fails_def split: sum.splits completed.splits)
  then obtain w1 where "find_audiveris ev w0 = (Inr None, w1)"
    by (cases "find_audiveris ev w0") auto
  then have "init ev None w0 = (Inr \<lparr>audiveris_path = None\<rparr>, w1)"
    by (simp add: init_def str_truthy_def truthy_def)
  then show "\<exists>d w1. init ev None w0 = (Inr d, w1) \<and> audiveris_path d = None \<and>
         (\<forall>image_path w.
            run_audiveris ev d image_path w =
              (Inl (RuntimeError
                     [Txt ''Audiveris not found. Please install Audiveris or provide path.'',
                      Txt [CHR 0x0A],
                      Txt ''Download from: https://github.com/Audiveris/audiveris/releases'']), w))"
    by (simp add: run_audiveris_def str_truthy_def truthy_def)
next
  fix image_path w
  show "run_audiveris_v2 ev (init_v2 None) image_path w =
        (Inl (RuntimeError [Txt ''Audiveris path not provided'']), w)"
    by (simp add: run_audiveris_v2_def init_v2_def str_truthy_def truthy_def)
qed

theorem no_audiveris_raises_before_any_effect_witness:
  "list_all (\<lambda>p. \<not> exists (files example_world) (path_of p)) (possible_paths recognizer_env) \<and>
   which_fails recognizer_env (files example_world) \<and>
   fst (init recognizer_env None example_world) = Inr \<lparr>audiveris_path = None\<rparr> \<and>
   run_audiveris recognizer_env \<lparr>audiveris_path = None\<rparr> score_png example_world =
     (Inl (RuntimeError
            [Txt ''Audiveris not found. Please install Audiveris or provide path.'',
             Txt [CHR 0x0A],
             Txt ''Download from: https://github.com/Audiveris/audiveris/releases'']),
      example_world) \<and>
   run_audiveris_v2 recognizer_env (init_v2 None) score_png example_world =
     (Inl (RuntimeError [Txt ''Audiveris path not provided'']), example_world)"
proof -
  have a: "list_all (\<lambda>p. \<not> exists (files example_world) (path_of p)) (possible_paths recognizer_env)"
    by (simp add: eval_all)
  have b: "which_fails recognizer_env (files example_world)"
    by (simp add: eval_all)
  from a b have h: "(\<forall>p\<in>set (possible_paths recognizer_env).
      \<not> exists (files example_world) (path_of p)) \<and>
      which_fails recognizer_env (files example_world)"
    by (simp add: list_all_iff)
  note t = no_audiveris_raises_before_any_effect [of recognizer_env example_world]
  from t h obtain d w1 where d: "init recognizer_env None example_world = (Inr d, w1)"
    "audiveris_path d = None"
    "\<forall>image_path w. run_audiveris recognizer_env d image_path w =
      (Inl (RuntimeError
            [Txt ''Audiveris not found. Please install Audiveris or provide path.'',
             Txt [CHR 0x0A],
             Txt ''Download from: https://github.com/Audiveris/audiveris/releases'']), w)"
    by blast
  from d(2) have "d = \<lparr>audiveris_path = None\<rparr>" by (cases d) simp
  with d t a b show ?thesis by simp
qed

text \<open>
  C9. When the input path does not exist, \<open>process_image\<close> of v1 and of v2 raises
  \<open>FileNotFoundError\<close> and leaves the world as it was: no process is run, no file is
  written, nothing is printed.
\<close>

theorem missing_image_raises_before_any_effect:
  "\<not> exists (files w) image_path \<longrightarrow>
     process_image ev self image_path output_arg w =
       (Inl (FileNotFoundError [Txt ''Image not found: '', Txt (str_path image_path)]), w) \<and>
     process_image_v2 ev self image_path output_arg w =
       (Inl (FileNotFoundError [Txt ''Image not found: '', Txt (str_path image_path)]), w)"
  by (simp add: process_image_def process_image_v2_def)

theorem missing_image_raises_before_any_effect_witness:
  "\<not> exists (files example_world) (Path [] [''missing.png'']) \<and>
   process_image recognizer_env \<lparr>audiveris_path = Some ''/opt/audiveris''\<rparr>
     (Path [] [''missing.png'']) None example_world =
     (Inl (FileNotFoundError [Txt ''Image not found: '', Txt ''missing.png'']), example_world) \<and>
   process_image_v2 recognizer_env \<lparr>audiveris_path = Some ''/opt/audiveris''\<rparr>
     (Path [] [''missing.png'']) None example_world =
     (Inl (FileNotFoundError [Txt ''Image not found: '', Txt ''missing.png'']), example_world)"
proof -
  have a: "\<not> exists (files example_world) (Path [] [''missing.png''])"
    by (simp add: exists_def example_world_def score_png_def)
  have b: "str_path (Path [] [''missing.png'']) = ''missing.png''"
    by (simp add: str_path_def)
  show ?thesis
    using a b missing_image_raises_before_any_effect
      [of example_world "Path [] [''missing.png'']" recognizer_env
        "\<lparr>audiveris_path = Some ''/opt/audiveris''\<rparr>" None]
    by simp
qed









end
